theory Spec2Isabelle
  imports Complex_Main "HOL-Library.Word"
begin

section \<open>Python values: errors, tensors\<close>

text \<open>
  Every \<open>raise\<close> of the source is a value \<open>Inl e\<close> of a result type \<open>error + 'a\<close>.
  The string of an error is the message, or the name the interpreter reports.
\<close>

datatype error =
    NotImplementedError string
  | ValueError string
  | AttributeError string
  | KeyError string
  | IndexError
  | AssertionError
  | RuntimeError string

type_synonym vec = "real list"
type_synonym matrix = "real list list"

text \<open>
  What a head's \<open>forward\<close> returns and its other methods consume: a tensor of rank 1
  (shape [n]), of rank 2 (shape [B, n], a list of rows), of rank 3 (shape [B, s, n]), or
  a tuple of those.
\<close>

datatype outputs =
    Tensor1 vec
  | Tensor2 matrix
  | Tensor3 "matrix list"
  | Tuple2 outputs outputs
  | Tuple3 outputs outputs outputs

text \<open>The numbers a value holds, in order.\<close>

fun entries :: "outputs \<Rightarrow> real list" where
  "entries (Tensor1 v) = v"
| "entries (Tensor2 m) = concat m"
| "entries (Tensor3 t) = concat (concat t)"
| "entries (Tuple2 a b) = entries a @ entries b"
| "entries (Tuple3 a b c) = entries a @ entries b @ entries c"

fun map_err :: "('a \<Rightarrow> error + 'b) \<Rightarrow> 'a list \<Rightarrow> error + 'b list" where
  "map_err f [] = Inr []"
| "map_err f (x # xs) =
     (case f x of
        Inl e \<Rightarrow> Inl e
      | Inr y \<Rightarrow> (case map_err f xs of Inl e \<Rightarrow> Inl e | Inr ys \<Rightarrow> Inr (y # ys)))"

definition dot :: "vec \<Rightarrow> vec \<Rightarrow> real" where
  "dot u v = sum_list (map2 (*) u v)"

definition norm2 :: "vec \<Rightarrow> real" where
  \<comment> \<open>the Euclidean norm of a row (\<open>np.linalg.norm\<close>, torch's 2-norm)\<close>
  "norm2 v = sqrt (sum_list (map (\<lambda>x. x * x) v))"

definition vscale :: "real \<Rightarrow> vec \<Rightarrow> vec" where
  "vscale k v = map (\<lambda>x. k * x) v"

definition vadd :: "vec \<Rightarrow> vec \<Rightarrow> vec" where
  "vadd u v = map2 (+) u v"

definition vsub :: "vec \<Rightarrow> vec \<Rightarrow> vec" where
  "vsub u v = map2 (-) u v"

section \<open>Direction getters: \<open>dwi_ml/models/direction_getter_models.py\<close>\<close>

subsection \<open>Layers\<close>

text \<open>
  A \<open>torch.nn.Linear\<close>: one weight row per output feature, and a bias. Applied to a
  row \<open>x\<close> it computes \<open>W x + b\<close>; a row whose size is not the layer's input size is a
  runtime error.
\<close>

record linear_layer =
  weight :: matrix
  bias :: vec

text \<open>
  The weights \<open>Linear(n_in, n_out)\<close> starts from are drawn at random by torch; the
  model takes them from an initialiser, by the attribute the layers are stored under, the
  position in the \<open>ModuleList\<close> and the two sizes.
\<close>

type_synonym initialiser = "string \<Rightarrow> nat \<Rightarrow> nat \<Rightarrow> nat \<Rightarrow> linear_layer"

definition linear_row :: "linear_layer \<Rightarrow> vec \<Rightarrow> error + vec" where
  "linear_row h x =
     (if list_all (\<lambda>row. length row = length x) (weight h)
      then Inr (map2 (\<lambda>row b. dot row x + b) (weight h) (bias h))
      else Inl (RuntimeError ''mat1 and mat2 shapes cannot be multiplied''))"

definition linear_apply :: "linear_layer \<Rightarrow> matrix \<Rightarrow> error + matrix" where
  "linear_apply h inputs = map_err (linear_row h) inputs"

definition init_2layer_fully_connected ::
  "initialiser \<Rightarrow> string \<Rightarrow> nat \<Rightarrow> nat \<Rightarrow> linear_layer list" where
  \<comment> \<open>\<open>h1_size = ceil(input_size / 2)\<close>\<close>
  "init_2layer_fully_connected Linear name input_size output_size =
     (let h1_size = (input_size + 1) div 2;
          h1 = Linear name 0 input_size h1_size;
          h2 = Linear name 1 h1_size output_size
      in [h1, h2])"

subsection \<open>The classes and their instances\<close>

datatype dg_class =
    CosineRegressionDirectionGetter
  | L2RegressionDirectionGetter
  | SphereClassificationDirectionGetter
  | SingleGaussianDirectionGetter
  | GaussianMixtureDirectionGetter
  | FisherVonMisesDirectionGetter
  | FisherVonMisesMixtureDirectionGetter

text \<open>
  An instance: the attributes \<open>AbstractDirectionGetterModel.__init__\<close> sets, the
  \<open>ModuleList\<close>s registered on it by attribute name, and the attributes only some
  classes set (\<open>None\<close> where the class does not set them).
\<close>

record direction_getter =
  cls :: dg_class
  input_size :: nat
  key :: string
  supports_compressed_streamlines :: bool
  loss_description :: string
  dropout :: "real option"
  modules :: "string \<rightharpoonup> linear_layer list"
  sphere_name :: "string option"
  vertices :: "matrix option"
  nb_gaussians :: "nat option"
  n_cluster :: "nat option"

definition truthy :: "real option \<Rightarrow> bool" where
  \<comment> \<open>Python's truth value of a float or \<open>None\<close>\<close>
  "truthy d = (case d of None \<Rightarrow> False | Some p \<Rightarrow> p \<noteq> 0)"

definition AbstractDirectionGetterModel_init ::
  "dg_class \<Rightarrow> nat \<Rightarrow> real option \<Rightarrow> string \<Rightarrow> bool \<Rightarrow> string \<Rightarrow> error + direction_getter" where
  "AbstractDirectionGetterModel_init c n d k supports descr =
     (if truthy d \<and> (the d < 0 \<or> the d > 1)
      then Inl (ValueError ''Dropout rate should be between 0 and 1.'')
      else Inr \<lparr>cls = c, input_size = n, key = k,
                supports_compressed_streamlines = supports,
                loss_description = descr, dropout = d, modules = Map.empty,
                sphere_name = None, vertices = None, nb_gaussians = None,
                n_cluster = None\<rparr>)"

definition register ::
  "initialiser \<Rightarrow> string \<Rightarrow> nat \<Rightarrow> direction_getter \<Rightarrow> direction_getter" where
  \<comment> \<open>\<open>self.<name> = init_2layer_fully_connected(input_size, output_size)\<close>\<close>
  "register Linear name output_size self =
     self\<lparr>modules := (modules self)
       (name \<mapsto> init_2layer_fully_connected Linear name (input_size self) output_size)\<rparr>"

definition CosineRegression_init ::
  "initialiser \<Rightarrow> nat \<Rightarrow> real option \<Rightarrow> error + direction_getter" where
  "CosineRegression_init Linear n d =
     (case AbstractDirectionGetterModel_init CosineRegressionDirectionGetter n d
             ''cosine-regression'' False ''negative cosine similarity'' of
        Inl e \<Rightarrow> Inl e
      | Inr self \<Rightarrow> Inr (register Linear ''layers'' 3 self))"

definition L2Regression_init ::
  "initialiser \<Rightarrow> nat \<Rightarrow> real option \<Rightarrow> error + direction_getter" where
  "L2Regression_init Linear n d =
     (case AbstractDirectionGetterModel_init L2RegressionDirectionGetter n d
             ''l2-regression'' True ''torch's pairwise distance'' of
        Inl e \<Rightarrow> Inl e
      | Inr self \<Rightarrow> Inr (register Linear ''layers'' 3 self))"

text \<open>
  \<open>dipy.data.get_sphere\<close> is a library call: the model takes it as a function from the
  sphere's name to its vertices, or to the error dipy raises for a name it does not know.
\<close>

definition SphereClassification_init ::
  "initialiser \<Rightarrow> (string \<Rightarrow> error + matrix) \<Rightarrow> nat \<Rightarrow> real option \<Rightarrow> string
     \<Rightarrow> error + direction_getter" where
  "SphereClassification_init Linear get_sphere n d sphere =
     (case AbstractDirectionGetterModel_init SphereClassificationDirectionGetter n d
             ''sphere-classification'' False ''negative log-likelihood'' of
        Inl e \<Rightarrow> Inl e
      | Inr self \<Rightarrow>
          (case get_sphere sphere of
             Inl e \<Rightarrow> Inl e
           | Inr vs \<Rightarrow>
               Inr (register Linear ''layers'' (length vs)
                     (self\<lparr>sphere_name := Some sphere, vertices := Some vs\<rparr>))))"

definition SingleGaussian_init ::
  "initialiser \<Rightarrow> nat \<Rightarrow> real option \<Rightarrow> error + direction_getter" where
  "SingleGaussian_init Linear n d =
     (case AbstractDirectionGetterModel_init SingleGaussianDirectionGetter n d
             ''gaussian'' True ''negative log-likelihood'' of
        Inl e \<Rightarrow> Inl e
      | Inr self \<Rightarrow>
          Inr (register Linear ''layers_sigmas'' 3
                (register Linear ''layers_mean'' 3 self)))"

definition GaussianMixture_init ::
  "initialiser \<Rightarrow> nat \<Rightarrow> real option \<Rightarrow> nat \<Rightarrow> error + direction_getter" where
  "GaussianMixture_init Linear n d k =
     (case AbstractDirectionGetterModel_init GaussianMixtureDirectionGetter n d
             ''gaussian-mixture'' True ''negative log-likelihood'' of
        Inl e \<Rightarrow> Inl e
      | Inr self \<Rightarrow>
          Inr (register Linear ''layers_sigmas'' (3 * k)
                (register Linear ''layers_mean'' (3 * k)
                  (register Linear ''layers_mixture'' (1 * k)
                    (self\<lparr>nb_gaussians := Some k\<rparr>)))))"

definition FisherVonMises_init ::
  "initialiser \<Rightarrow> nat \<Rightarrow> real option \<Rightarrow> error + direction_getter" where
  "FisherVonMises_init Linear n d =
     (case AbstractDirectionGetterModel_init FisherVonMisesDirectionGetter n d
             ''fisher-von-mises'' False ''negative log-likelihood'' of
        Inl e \<Rightarrow> Inl e
      | Inr self \<Rightarrow>
          Inr (register Linear ''layers_kappa'' 1
                (register Linear ''layers_mean'' 3 self)))"

definition FisherVonMisesMixture_init ::
  "initialiser \<Rightarrow> nat \<Rightarrow> real option \<Rightarrow> nat \<Rightarrow> error + direction_getter" where
  \<comment> \<open>the constructor ends in \<open>raise NotImplementedError\<close>\<close>
  "FisherVonMisesMixture_init Linear n d k =
     (case AbstractDirectionGetterModel_init FisherVonMisesMixtureDirectionGetter n d
             ''fisher-von-mises-mixture'' False ''negative log-likelihood'' of
        Inl e \<Rightarrow> Inl e
      | Inr self \<Rightarrow> Inl (NotImplementedError ''''))"

subsection \<open>The registry\<close>

definition keys_to_direction_getters :: "(string \<times> dg_class) list" where
  "keys_to_direction_getters =
     [(''cosine-regression'', CosineRegressionDirectionGetter),
      (''l2-regression'', L2RegressionDirectionGetter),
      (''sphere-classification'', SphereClassificationDirectionGetter),
      (''gaussian'', SingleGaussianDirectionGetter),
      (''gaussian-mixture'', GaussianMixtureDirectionGetter),
      (''fisher-von-mises'', FisherVonMisesDirectionGetter),
      (''fisher-von-mises-mixture'', FisherVonMisesMixtureDirectionGetter)]"

text \<open>
  The arguments of a constructor call. \<open>arg_sphere\<close>, \<open>arg_nb_gaussians\<close> and
  \<open>arg_n_cluster\<close> are the keyword arguments of the classes that have them (defaults
  \<open>'symmetric724'\<close>, 3 and 3).
\<close>

record dg_args =
  arg_input_size :: nat
  arg_dropout :: "real option"
  arg_sphere :: string
  arg_nb_gaussians :: nat
  arg_n_cluster :: nat

fun construct ::
  "initialiser \<Rightarrow> (string \<Rightarrow> error + matrix) \<Rightarrow> dg_class \<Rightarrow> dg_args
     \<Rightarrow> error + direction_getter" where
  "construct Linear get_sphere CosineRegressionDirectionGetter a =
     CosineRegression_init Linear (arg_input_size a) (arg_dropout a)"
| "construct Linear get_sphere L2RegressionDirectionGetter a =
     L2Regression_init Linear (arg_input_size a) (arg_dropout a)"
| "construct Linear get_sphere SphereClassificationDirectionGetter a =
     SphereClassification_init Linear get_sphere (arg_input_size a) (arg_dropout a)
       (arg_sphere a)"
| "construct Linear get_sphere SingleGaussianDirectionGetter a =
     SingleGaussian_init Linear (arg_input_size a) (arg_dropout a)"
| "construct Linear get_sphere GaussianMixtureDirectionGetter a =
     GaussianMixture_init Linear (arg_input_size a) (arg_dropout a) (arg_nb_gaussians a)"
| "construct Linear get_sphere FisherVonMisesDirectionGetter a =
     FisherVonMises_init Linear (arg_input_size a) (arg_dropout a)"
| "construct Linear get_sphere FisherVonMisesMixtureDirectionGetter a =
     FisherVonMisesMixture_init Linear (arg_input_size a) (arg_dropout a) (arg_n_cluster a)"

definition construct_from_key ::
  "initialiser \<Rightarrow> (string \<Rightarrow> error + matrix) \<Rightarrow> string \<Rightarrow> dg_args
     \<Rightarrow> error + direction_getter" where
  \<comment> \<open>\<open>keys_to_direction_getters[k](**args)\<close>\<close>
  "construct_from_key Linear get_sphere k a =
     (case map_of keys_to_direction_getters k of
        None \<Rightarrow> Inl (KeyError k)
      | Some c \<Rightarrow> construct Linear get_sphere c a)"

subsection \<open>Running the layers\<close>

definition relu_sublayer :: "matrix \<Rightarrow> matrix" where
  "relu_sublayer m = map (map (max 0)) m"

text \<open>
  \<open>torch.nn.Dropout(p)\<close> is the identity in evaluation mode and a random rescaled mask
  in training mode: the model takes it as a function \<open>Dropout p\<close> on the batch. A head
  built with a dropout rate of \<open>None\<close> or 0 uses the identity instead.
\<close>

definition dropout_sublayer ::
  "(real \<Rightarrow> matrix \<Rightarrow> matrix) \<Rightarrow> direction_getter \<Rightarrow> matrix \<Rightarrow> matrix" where
  "dropout_sublayer Dropout self =
     (if truthy (dropout self) then Dropout (the (dropout self)) else (\<lambda>x. x))"

fun loop_on_layers ::
  "(real \<Rightarrow> matrix \<Rightarrow> matrix) \<Rightarrow> direction_getter \<Rightarrow> matrix \<Rightarrow> linear_layer list
     \<Rightarrow> error + matrix" where
  "loop_on_layers Dropout self layer_inputs [] = Inl IndexError"
| "loop_on_layers Dropout self layer_inputs [h] = linear_apply h layer_inputs"
| "loop_on_layers Dropout self layer_inputs (h # hs) =
     (case linear_apply h layer_inputs of
        Inl e \<Rightarrow> Inl e
      | Inr pre_act \<Rightarrow>
          loop_on_layers Dropout self
            (dropout_sublayer Dropout self (relu_sublayer pre_act)) hs)"

definition getattr_layers :: "direction_getter \<Rightarrow> string \<Rightarrow> error + linear_layer list" where
  \<comment> \<open>\<open>self.<name>\<close>: an attribute the instance does not have is an AttributeError\<close>
  "getattr_layers self name =
     (case modules self name of None \<Rightarrow> Inl (AttributeError name) | Some ls \<Rightarrow> Inr ls)"

definition run_layers ::
  "(real \<Rightarrow> matrix \<Rightarrow> matrix) \<Rightarrow> direction_getter \<Rightarrow> matrix \<Rightarrow> string \<Rightarrow> error + matrix" where
  \<comment> \<open>\<open>self.loop_on_layers(inputs, self.<name>)\<close>\<close>
  "run_layers Dropout self inputs name =
     (case getattr_layers self name of
        Inl e \<Rightarrow> Inl e
      | Inr ls \<Rightarrow> loop_on_layers Dropout self inputs ls)"

subsection \<open>\<open>forward\<close>\<close>

definition Regression_forward ::
  "(real \<Rightarrow> matrix \<Rightarrow> matrix) \<Rightarrow> direction_getter \<Rightarrow> matrix \<Rightarrow> error + outputs" where
  \<comment> \<open>the two regression heads and the classification head: one stack, returned as it is\<close>
  "Regression_forward Dropout self inputs =
     (case run_layers Dropout self inputs ''layers'' of
        Inl e \<Rightarrow> Inl e
      | Inr output \<Rightarrow> Inr (Tensor2 output))"

definition SingleGaussian_forward ::
  "(real \<Rightarrow> matrix \<Rightarrow> matrix) \<Rightarrow> direction_getter \<Rightarrow> matrix \<Rightarrow> error + outputs" where
  "SingleGaussian_forward Dropout self inputs =
     (case run_layers Dropout self inputs ''layers_mean'' of
        Inl e \<Rightarrow> Inl e
      | Inr means \<Rightarrow>
          (case run_layers Dropout self inputs ''layers_sigma'' of
             Inl e \<Rightarrow> Inl e
           | Inr log_sigmas \<Rightarrow>
               Inr (Tuple2 (Tensor2 means) (Tensor2 (map (map exp) log_sigmas)))))"

definition GaussianMixture_forward ::
  "(real \<Rightarrow> matrix \<Rightarrow> matrix) \<Rightarrow> direction_getter \<Rightarrow> matrix \<Rightarrow> error + outputs" where
  "GaussianMixture_forward Dropout self inputs =
     (case run_layers Dropout self inputs ''layers_mixture'' of
        Inl e \<Rightarrow> Inl e
      | Inr mixture_logits \<Rightarrow>
          (case run_layers Dropout self inputs ''layers_mean'' of
             Inl e \<Rightarrow> Inl e
           | Inr means \<Rightarrow>
               (case run_layers Dropout self inputs ''layers_sigma'' of
                  Inl e \<Rightarrow> Inl e
                | Inr log_sigmas \<Rightarrow>
                    Inr (Tuple3 (Tensor2 mixture_logits) (Tensor2 means)
                          (Tensor2 (map (map exp) log_sigmas))))))"

definition normalize :: "vec \<Rightarrow> vec" where
  \<comment> \<open>\<open>torch.nn.functional.normalize(v, dim=-1)\<close>: \<open>v / max(||v||, eps)\<close>, eps = 1e-12\<close>
  "normalize v = map (\<lambda>x. x / max (norm2 v) (1 / 10 ^ 12)) v"

definition sigmoid :: "real \<Rightarrow> real" where
  "sigmoid x = 1 / (1 + exp (- x))"

definition squeeze_last :: "matrix \<Rightarrow> outputs" where
  \<comment> \<open>\<open>t.squeeze(dim=-1)\<close> on a rank-2 tensor: drops the last dimension when its size is 1\<close>
  "squeeze_last m =
     (if list_all (\<lambda>r. length r = 1) m then Tensor1 (map hd m) else Tensor2 m)"

definition FisherVonMises_forward ::
  "(real \<Rightarrow> matrix \<Rightarrow> matrix) \<Rightarrow> direction_getter \<Rightarrow> matrix \<Rightarrow> error + outputs" where
  "FisherVonMises_forward Dropout self inputs =
     (case run_layers Dropout self inputs ''layers_mean'' of
        Inl e \<Rightarrow> Inl e
      | Inr means \<Rightarrow>
          (case run_layers Dropout self inputs ''layers_kappa'' of
             Inl e \<Rightarrow> Inl e
           | Inr unbound_kappa \<Rightarrow>
               Inr (Tuple2 (Tensor2 (map normalize means))
                     (squeeze_last (map (map (\<lambda>k. sigmoid k * 20)) unbound_kappa)))))"

definition forward ::
  "(real \<Rightarrow> matrix \<Rightarrow> matrix) \<Rightarrow> direction_getter \<Rightarrow> matrix \<Rightarrow> error + outputs" where
  \<comment> \<open>\<open>self.forward(inputs)\<close>, resolved by the instance's class\<close>
  "forward Dropout self inputs =
     (case cls self of
        CosineRegressionDirectionGetter \<Rightarrow> Regression_forward Dropout self inputs
      | L2RegressionDirectionGetter \<Rightarrow> Regression_forward Dropout self inputs
      | SphereClassificationDirectionGetter \<Rightarrow> Regression_forward Dropout self inputs
      | SingleGaussianDirectionGetter \<Rightarrow> SingleGaussian_forward Dropout self inputs
      | GaussianMixtureDirectionGetter \<Rightarrow> GaussianMixture_forward Dropout self inputs
      | FisherVonMisesDirectionGetter \<Rightarrow> FisherVonMises_forward Dropout self inputs
      | FisherVonMisesMixtureDirectionGetter \<Rightarrow> Inl (NotImplementedError ''''))"

subsection \<open>\<open>get_tracking_direction_det\<close> and the regression heads' \<open>sample_tracking_direction_prob\<close>\<close>

text \<open>
  \<open>torch.argmax\<close> returns the index of the first maximal value; an empty tensor is an
  error. \<open>argmax_from best_i best i xs\<close> scans \<open>xs\<close>, whose head has index \<open>i\<close>,
  keeping the first index of the largest value seen.
\<close>

fun argmax_from :: "nat \<Rightarrow> real \<Rightarrow> nat \<Rightarrow> real list \<Rightarrow> nat" where
  "argmax_from best_i best i [] = best_i"
| "argmax_from best_i best i (x # xs) =
     (if best < x then argmax_from i x (Suc i) xs
      else argmax_from best_i best (Suc i) xs)"

definition argmax :: "real list \<Rightarrow> error + nat" where
  "argmax xs =
     (case xs of
        [] \<Rightarrow> Inl (RuntimeError ''argmax of an empty tensor'')
      | x # rest \<Rightarrow> Inr (argmax_from 0 x 1 rest))"

definition SphereClassification_get_tracking_direction_det ::
  "direction_getter \<Rightarrow> outputs \<Rightarrow> error + outputs" where
  \<comment> \<open>\<open>self.vertices[logits_per_class.argmax()]\<close>: \<open>argmax()\<close> without \<open>dim\<close> is the
      index of the maximum in the flattened tensor\<close>
  "SphereClassification_get_tracking_direction_det self logits_per_class =
     (case vertices self of
        None \<Rightarrow> Inl (AttributeError ''vertices'')
      | Some vs \<Rightarrow>
          (case (case logits_per_class of
                   Tensor1 v \<Rightarrow> argmax v
                 | Tensor2 m \<Rightarrow> argmax (concat m)
                 | Tensor3 t \<Rightarrow> argmax (concat (concat t))
                 | _ \<Rightarrow> Inl (AttributeError ''argmax'')) of
             Inl e \<Rightarrow> Inl e
           | Inr i \<Rightarrow> if i < length vs then Inr (Tensor1 (vs ! i)) else Inl IndexError))"

definition get_tracking_direction_det ::
  "direction_getter \<Rightarrow> outputs \<Rightarrow> error + outputs" where
  \<comment> \<open>\<open>self.get_tracking_direction_det(outputs)\<close>, resolved by the instance's class\<close>
  "get_tracking_direction_det self outs =
     (case cls self of
        CosineRegressionDirectionGetter \<Rightarrow> Inr outs
      | L2RegressionDirectionGetter \<Rightarrow> Inr outs
      | SphereClassificationDirectionGetter \<Rightarrow>
          SphereClassification_get_tracking_direction_det self outs
      | SingleGaussianDirectionGetter \<Rightarrow> Inl (NotImplementedError '''')
      | GaussianMixtureDirectionGetter \<Rightarrow> Inl (NotImplementedError '''')
      | FisherVonMisesDirectionGetter \<Rightarrow> Inl (NotImplementedError '''')
      | FisherVonMisesMixtureDirectionGetter \<Rightarrow> Inl (NotImplementedError ''''))"

definition CosineRegression_sample_tracking_direction_prob ::
  "direction_getter \<Rightarrow> outputs \<Rightarrow> error + outputs" where
  "CosineRegression_sample_tracking_direction_prob self learned_directions =
     Inl (NotImplementedError
       ''This regression model does not support probabilistic tractography.'')"

definition L2Regression_sample_tracking_direction_prob ::
  "direction_getter \<Rightarrow> outputs \<Rightarrow> error + outputs" where
  "L2Regression_sample_tracking_direction_prob self learned_directions =
     Inl (NotImplementedError
       ''This regression model does not support probabilistic tractography.'')"

subsection \<open>Nearest vertex of the sphere\<close>

definition matmul_transposed :: "matrix \<Rightarrow> matrix \<Rightarrow> error + matrix" where
  \<comment> \<open>\<open>torch.matmul(directions, vertices.t())\<close>: entry (n, c) is the dot product of
      direction n and vertex c; the inner sizes must agree\<close>
  "matmul_transposed directions vs =
     map_err (\<lambda>d. if list_all (\<lambda>v. length v = length d) vs
                   then Inr (map (dot d) vs)
                   else Inl (RuntimeError ''mat1 and mat2 shapes cannot be multiplied''))
       directions"

definition find_closest_vertex :: "direction_getter \<Rightarrow> matrix \<Rightarrow> error + 16 word list" where
  \<comment> \<open>\<open>_find_closest_vertex\<close>; \<open>.type(torch.int16)\<close> keeps the low 16 bits\<close>
  "find_closest_vertex self directions =
     (case vertices self of
        None \<Rightarrow> Inl (AttributeError ''vertices'')
      | Some vs \<Rightarrow>
          (case matmul_transposed directions vs of
             Inl e \<Rightarrow> Inl e
           | Inr cosine_similarity \<Rightarrow>
               (case map_err argmax cosine_similarity of
                  Inl e \<Rightarrow> Inl e
                | Inr index \<Rightarrow> Inr (map word_of_nat index))))"

subsection \<open>Sampling from the Fisher-von Mises head\<close>

text \<open>
  The sampler draws from numpy's random generator. The model is given the draws: for one
  sample, the pairs \<open>(z, u)\<close> that \<open>_sample_weight\<close> draws in its loop, in order
  (\<open>z\<close> from \<open>beta(1, 1)\<close>, \<open>u\<close> from \<open>uniform(0, 1)\<close>), and the vector that
  \<open>_sample_orthonormal_to\<close> draws with \<open>randn\<close>.

  A call then ends in one of four ways: it returns a value, it raises, it returns an
  array with \<open>nan\<close> components (a division of zero by a zero norm: no real number
  stands for it), or its loop has rejected every pair it was given and is still drawing.
\<close>

datatype 'a outcome = Returns 'a | Raises error | NotANumber | StillLooping

type_synonym draws = "(real \<times> real) list \<times> vec"

fun sample_weight :: "real \<Rightarrow> (real \<times> real) list \<Rightarrow> real option" where
  \<comment> \<open>\<open>np.log(u)\<close> is \<open>-inf\<close> for \<open>u = 0\<close>, below every number\<close>
  "sample_weight kappa [] = None"
| "sample_weight kappa ((z, u) # rest) =
     (let b = 2 / (sqrt (4 * kappa ^ 2 + 4) + 2 * kappa);
          x = (1 - b) / (1 + b);
          c = kappa * x + 2 * ln (1 - x ^ 2);
          w = (1 - (1 + b) * z) / (1 - (1 - b) * z)
      in if u = 0 \<or> kappa * w + 2 * ln (1 - x * w) - c \<ge> ln u then Some w
         else sample_weight kappa rest)"

definition sample_orthonormal_to :: "vec \<Rightarrow> vec \<Rightarrow> vec option" where
  \<comment> \<open>\<open>v\<close> is the draw \<open>np.random.randn(mu.shape[0])\<close>\<close>
  "sample_orthonormal_to mu v =
     (let proj_mu_v = map (\<lambda>x. x / norm2 mu) (vscale (dot mu v) mu);
          orthto = vsub v proj_mu_v
      in if norm2 mu = 0 \<or> norm2 orthto = 0 then None
         else Some (map (\<lambda>x. x / norm2 orthto) orthto))"

definition sample_one :: "vec \<Rightarrow> real \<Rightarrow> draws \<Rightarrow> vec outcome" where
  \<comment> \<open>the body of the loop: the row to store in \<open>result[i, :]\<close>\<close>
  "sample_one mu kappa r =
     (case sample_weight kappa (fst r) of
        None \<Rightarrow> StillLooping
      | Some w \<Rightarrow>
          (case sample_orthonormal_to mu (snd r) of
             None \<Rightarrow> NotANumber
           | Some v \<Rightarrow>
               if 1 - w ^ 2 < 0 then NotANumber
               else Returns (vadd (vscale (sqrt (1 - w ^ 2)) v) (vscale w mu))))"

definition assign_row :: "vec \<Rightarrow> error + vec" where
  \<comment> \<open>\<open>result[i, :] = d\<close> on a row of 3: \<open>d\<close> has 3 components, or 1 that is broadcast\<close>
  "assign_row d =
     (if length d = 3 then Inr d
      else if length d = 1 then Inr (replicate 3 (hd d))
      else Inl (ValueError ''could not broadcast input array''))"

fun sample_rows :: "vec list \<Rightarrow> real list \<Rightarrow> draws list \<Rightarrow> matrix outcome" where
  \<comment> \<open>\<open>for i, mu, kappa in zip(range(n_samples), mus, kappas)\<close>\<close>
  "sample_rows [] kappas rs = Returns []"
| "sample_rows (mu # mus) [] rs = Returns []"
| "sample_rows (mu # mus) (kappa # kappas) [] = StillLooping"
| "sample_rows (mu # mus) (kappa # kappas) (r # rs) =
     (case sample_one mu kappa r of
        Returns d \<Rightarrow>
          (case assign_row d of
             Inl e \<Rightarrow> Raises e
           | Inr row \<Rightarrow>
               (case sample_rows mus kappas rs of
                  Returns rows \<Rightarrow> Returns (row # rows)
                | other \<Rightarrow> other))
      | Raises e \<Rightarrow> Raises e
      | NotANumber \<Rightarrow> NotANumber
      | StillLooping \<Rightarrow> StillLooping)"

definition unpack2 :: "outputs \<Rightarrow> error + outputs \<times> outputs" where
  \<comment> \<open>\<open>mus, kappas = learned_fisher_params\<close>: a pair, or a tensor whose first size is 2\<close>
  "unpack2 p =
     (case p of
        Tuple2 a b \<Rightarrow> Inr (a, b)
      | Tensor2 [r1, r2] \<Rightarrow> Inr (Tensor1 r1, Tensor1 r2)
      | Tensor3 [m1, m2] \<Rightarrow> Inr (Tensor2 m1, Tensor2 m2)
      | _ \<Rightarrow> Inl (ValueError ''cannot unpack''))"

definition squeeze_dim1 :: "outputs \<Rightarrow> error + outputs" where
  \<comment> \<open>\<open>t.squeeze(dim=1)\<close>: drops dimension 1 when its size is 1; a tensor of rank 1 has
      no dimension 1\<close>
  "squeeze_dim1 t =
     (case t of
        Tensor1 v \<Rightarrow> Inl IndexError
      | Tensor2 m \<Rightarrow>
          Inr (if list_all (\<lambda>r. length r = 1) m then Tensor1 (map hd m) else Tensor2 m)
      | Tensor3 ms \<Rightarrow>
          Inr (if list_all (\<lambda>m. length m = 1) ms then Tensor2 (map hd ms) else Tensor3 ms)
      | _ \<Rightarrow> Inl (AttributeError ''squeeze''))"

definition shape0 :: "outputs \<Rightarrow> error + nat" where
  "shape0 t =
     (case t of
        Tensor1 v \<Rightarrow> Inr (length v)
      | Tensor2 m \<Rightarrow> Inr (length m)
      | Tensor3 ms \<Rightarrow> Inr (length ms)
      | _ \<Rightarrow> Inl (AttributeError ''shape''))"

text \<open>
  The method's comments give the shapes it is written for: means of shape [n, 3] and one
  kappa per mean once dimension 1 (a sequence of a single step) is squeezed. On tensors
  of other ranks numpy fails in ways that depend on the sizes; the model gives them one
  error, and nothing below is stated about them. Rows of \<open>result\<close> that the loop does
  not reach keep the zeros they were created with.
\<close>

definition FisherVonMises_sample_tracking_direction_prob ::
  "direction_getter \<Rightarrow> outputs \<Rightarrow> draws list \<Rightarrow> outputs outcome" where
  "FisherVonMises_sample_tracking_direction_prob self learned_fisher_params rs =
     (case unpack2 learned_fisher_params of
        Inl e \<Rightarrow> Raises e
      | Inr (mus, kappas) \<Rightarrow>
          (case shape0 mus of
             Inl e \<Rightarrow> Raises e
           | Inr n_samples \<Rightarrow>
               (case squeeze_dim1 mus of
                  Inl e \<Rightarrow> Raises e
                | Inr mus' \<Rightarrow>
                    (case squeeze_dim1 kappas of
                       Inl e \<Rightarrow> Raises e
                     | Inr kappas' \<Rightarrow>
                         (case (mus', kappas') of
                            (Tensor2 ms, Tensor1 ks) \<Rightarrow>
                              (case sample_rows ms ks rs of
                                 Returns rows \<Rightarrow>
                                   Returns (Tensor2
                                     (rows @ replicate (n_samples - length rows) [0, 0, 0]))
                               | Raises e \<Rightarrow> Raises e
                               | NotANumber \<Rightarrow> NotANumber
                               | StillLooping \<Rightarrow> StillLooping)
                          | _ \<Rightarrow> Raises (RuntimeError ''unsupported shape''))))))"

section \<open>The transformer model: \<open>dwi_ml/models/projects/transforming_tractography.py\<close>\<close>

text \<open>
  A tensor of shape [n, F], a sequence of n points of F features each, is the list of its
  n rows together with F: a sequence of no point keeps its number of features. \<open>len\<close> of
  such a tensor is its number of rows.
\<close>

record tensor2d =
  points :: "vec list"
  nb_features :: nat

definition forward_padding :: "tensor2d \<Rightarrow> nat \<Rightarrow> tensor2d" where
  \<comment> \<open>\<open>pad(data, (0, 0, 0, expected_length - len(data)))\<close>: rows of zeros are added at the
      end; a negative amount of padding removes rows\<close>
  "forward_padding data expected_length =
     (if length (points data) \<le> expected_length
      then data\<lparr>points := points data
                   @ replicate (expected_length - length (points data))
                       (replicate (nb_features data) 0)\<rparr>
      else data\<lparr>points := take expected_length (points data)\<rparr>)"

definition stack :: "tensor2d list \<Rightarrow> error + tensor2d list" where
  \<comment> \<open>\<open>torch.stack\<close>: a non-empty list of tensors of one shape\<close>
  "stack data =
     (case data of
        [] \<Rightarrow> Inl (RuntimeError ''stack expects a non-empty TensorList'')
      | d # _ \<Rightarrow>
          if list_all (\<lambda>t. length (points t) = length (points d)
                          \<and> nb_features t = nb_features d) data
          then Inr data
          else Inl (RuntimeError ''stack expects each tensor to be equal size''))"

definition pad_and_stack_batch :: "tensor2d list \<Rightarrow> bool \<Rightarrow> nat \<Rightarrow> error + tensor2d list" where
  "pad_and_stack_batch data pad_first pad_length =
     stack (if pad_first then map (\<lambda>d. forward_padding d pad_length) data else data)"

text \<open>\<open>'{}'.format(n)\<close> for a natural number: its decimal digits.\<close>

fun format_nat :: "nat \<Rightarrow> string" where
  "format_nat n =
     (if n < 10 then [''0123456789'' ! n]
      else format_nat (n div 10) @ [''0123456789'' ! (n mod 10)])"

declare format_nat.simps [simp del]

record transformer_model =
  max_len :: nat
  current_context :: "string option"

text \<open>
  \<open>AbstractTransformerModel.forward\<close>. The work after the checks is done by other
  modules (directions and targets, embeddings, the transformer, the direction getter):
  \<open>prepare_targets\<close>, \<open>embed_x\<close>, \<open>embed_t\<close> and \<open>main_layers\<close> stand for them, each
  free to raise. \<open>current_context\<close> is the attribute \<open>_context\<close>.
\<close>

definition AbstractTransformerModel_forward ::
  "transformer_model \<Rightarrow> (tensor2d list \<Rightarrow> error + tensor2d list)
     \<Rightarrow> (tensor2d list \<Rightarrow> error + 'x) \<Rightarrow> (tensor2d list \<Rightarrow> error + 't)
     \<Rightarrow> ('x \<Rightarrow> 't \<Rightarrow> nat list \<Rightarrow> error + 'o)
     \<Rightarrow> tensor2d list \<Rightarrow> tensor2d list \<Rightarrow> error + 'o" where
  "AbstractTransformerModel_forward self prepare_targets embed_x embed_t main_layers
       inputs input_streamlines =
     (if current_context self = None
      then Inl (ValueError ''Please set context before usage.'')
      else if \<not> list_all (\<lambda>(i, s). length (points i) = length (points s))
                     (zip inputs input_streamlines)
      then Inl AssertionError
      else
        let unpad_lengths = map (\<lambda>i. length (points i)) inputs in
        if list_ex (\<lambda>l. l > max_len self) unpad_lengths
        then Inl (ValueError
               (''Some streamlines were longer than accepted max length for sequences (''
                @ format_nat (max_len self) @ '')''))
        else
          (case unpad_lengths of
             [] \<Rightarrow> Inl IndexError
           | l0 # _ \<Rightarrow>
               let use_padding = \<not> list_all (\<lambda>l. l = l0) unpad_lengths;
                   batch_max_len = fold max unpad_lengths 0
               in (case prepare_targets input_streamlines of
                     Inl e \<Rightarrow> Inl e
                   | Inr targets \<Rightarrow>
                       (case pad_and_stack_batch inputs use_padding batch_max_len of
                          Inl e \<Rightarrow> Inl e
                        | Inr padded_inputs \<Rightarrow>
                            (case embed_x padded_inputs of
                               Inl e \<Rightarrow> Inl e
                             | Inr x \<Rightarrow>
                                 (case pad_and_stack_batch targets use_padding
                                         batch_max_len of
                                    Inl e \<Rightarrow> Inl e
                                  | Inr padded_targets \<Rightarrow>
                                      (case embed_t padded_targets of
                                         Inl e \<Rightarrow> Inl e
                                       | Inr t \<Rightarrow> main_layers x t unpad_lengths)))))))"

section \<open>The trainer: \<open>dwi_ml/training/projects/trainers_for_generation.py\<close>\<close>

record monitor =
  current_epoch :: int
  average_per_epoch :: "real list"

record trainer =
  tracking_phase_nb_steps_init :: nat
  tracking_valid_loss_monitor :: monitor
  tracking_valid_IS_monitor :: monitor

text \<open>
  \<open>_update_states_from_checkpoint\<close>. The parent class's method and
  \<open>BatchHistoryMonitor.set_state\<close> are in other modules: \<open>super_update\<close> and
  \<open>set_state\<close> stand for them. The states of a checkpoint are a dictionary from names to
  saved monitor states.
\<close>

definition update_states_from_checkpoint ::
  "((string \<rightharpoonup> 's) \<Rightarrow> trainer \<Rightarrow> error + trainer) \<Rightarrow> ('s \<Rightarrow> monitor \<Rightarrow> monitor)
     \<Rightarrow> trainer \<Rightarrow> (string \<rightharpoonup> 's) \<Rightarrow> error + trainer" where
  "update_states_from_checkpoint super_update set_state self current_states =
     (case super_update current_states self of
        Inl e \<Rightarrow> Inl e
      | Inr self1 \<Rightarrow>
          (case current_states ''tracking_valid_loss_monitor_state'' of
             None \<Rightarrow> Inl (KeyError ''tracking_valid_loss_monitor_state'')
           | Some s \<Rightarrow>
               let self2 = self1\<lparr>tracking_valid_loss_monitor :=
                                   set_state s (tracking_valid_loss_monitor self1)\<rparr>
               in Inr (self2\<lparr>tracking_valid_IS_monitor :=
                        (tracking_valid_IS_monitor self2)
                          \<lparr>current_epoch := 149,
                           average_per_epoch := replicate 150 0\<rparr>\<rparr>)))"

text \<open>
  What the checkpoint holds for the monitor, as \<open>_prepare_checkpoint_info\<close> stores it:
  present under its name, or absent.
\<close>

definition prepare_checkpoint_info ::
  "(monitor \<Rightarrow> 's) \<Rightarrow> (string \<rightharpoonup> 's) \<Rightarrow> trainer \<Rightarrow> (string \<rightharpoonup> 's)" where
  \<comment> \<open>\<open>super_states\<close> are the states the parent class stores; \<open>get_state\<close> is
      \<open>BatchHistoryMonitor.get_state\<close>\<close>
  "prepare_checkpoint_info get_state super_states self =
     super_states
       (''tracking_valid_loss_monitor_state'' \<mapsto> get_state (tracking_valid_loss_monitor self),
        ''tracking_valid_IS_monitor_state'' \<mapsto> get_state (tracking_valid_IS_monitor self))"

subsection \<open>Scoring one batch of generated streamlines\<close>

definition last_point :: "matrix \<Rightarrow> error + vec" where
  \<comment> \<open>\<open>line[-1, :]\<close>\<close>
  "last_point line = (if line = [] then Inl IndexError else Inr (last line))"

definition vstack :: "vec list \<Rightarrow> error + matrix" where
  "vstack rows =
     (if rows = [] then Inl (RuntimeError ''vstack expects a non-empty TensorList'')
      else Inr rows)"

definition broadcast2 :: "'a list \<Rightarrow> 'a list \<Rightarrow> error + ('a \<times> 'a) list" where
  \<comment> \<open>torch's broadcasting of one dimension: equal sizes, or one of them is 1\<close>
  "broadcast2 xs ys =
     (if length xs = length ys then Inr (zip xs ys)
      else if length xs = 1 then Inr (map (\<lambda>y. (hd xs, y)) ys)
      else if length ys = 1 then Inr (map (\<lambda>x. (x, hd ys)) xs)
      else Inl (RuntimeError ''the sizes of the tensors must match''))"

text \<open>
  \<open>torch.nn.PairwiseDistance(p=2)\<close> computes, row by row, the 2-norm of
  \<open>x1 - x2 + eps\<close>, where \<open>eps\<close> is a small constant of the module added to every
  component (1e-6 unless given); with \<open>eps = 0\<close> it is the Euclidean distance.
\<close>

definition pairwise_row :: "real \<Rightarrow> vec \<Rightarrow> vec \<Rightarrow> error + real" where
  "pairwise_row eps x1 x2 =
     (case broadcast2 x1 x2 of
        Inl e \<Rightarrow> Inl e
      | Inr ps \<Rightarrow> Inr (sqrt (sum_list (map (\<lambda>(a, b). (a - b + eps) ^ 2) ps))))"

definition PairwiseDistance :: "real \<Rightarrow> matrix \<Rightarrow> matrix \<Rightarrow> error + real list" where
  "PairwiseDistance eps x1 x2 =
     (case broadcast2 x1 x2 of
        Inl e \<Rightarrow> Inl e
      | Inr ps \<Rightarrow> map_err (\<lambda>(a, b). pairwise_row eps a b) ps)"

text \<open>
  The value the module computes for two rows of one size, and the Euclidean distance of two
  points.
\<close>

definition pairwise_norm :: "real \<Rightarrow> vec \<Rightarrow> vec \<Rightarrow> real" where
  "pairwise_norm eps x1 x2 = sqrt (sum_list (map2 (\<lambda>a b. (a - b + eps) ^ 2) x1 x2))"

definition euclidean_distance :: "vec \<Rightarrow> vec \<Rightarrow> real" where
  "euclidean_distance p q = sqrt (sum_list (map2 (\<lambda>a b. (a - b) ^ 2) p q))"

definition IS_THRESHOLD :: real where
  "IS_THRESHOLD = 2598 / 100"

text \<open>
  \<open>generate_from_one_batch\<close> returns the mean loss, the number of generated lines and
  the ratio of invalid streamlines, in percent. \<open>propagate_multiple_lines\<close> (the
  propagation engine, in another module) is a function from the truncated lines to the
  generated ones, free to raise; \<open>eps\<close> is the constant of the distance module.
\<close>

definition generate_from_one_batch ::
  "real \<Rightarrow> (matrix list \<Rightarrow> error + matrix list) \<Rightarrow> trainer \<Rightarrow> matrix list
     \<Rightarrow> error + real \<times> nat \<times> real" where
  "generate_from_one_batch eps propagate_multiple_lines self lines =
     (case map_err last_point lines of
        Inl e \<Rightarrow> Inl e
      | Inr ps \<Rightarrow>
          (case vstack ps of
             Inl e \<Rightarrow> Inl e
           | Inr last_pos \<Rightarrow>
               (case propagate_multiple_lines
                       (map (\<lambda>s. take (min (length s) (tracking_phase_nb_steps_init self)) s)
                          lines) of
                  Inl e \<Rightarrow> Inl e
                | Inr generated \<Rightarrow>
                    (case map_err last_point generated of
                       Inl e \<Rightarrow> Inl e
                     | Inr qs \<Rightarrow>
                         (case vstack qs of
                            Inl e \<Rightarrow> Inl e
                          | Inr computed_last_pos \<Rightarrow>
                              (case PairwiseDistance eps computed_last_pos last_pos of
                                 Inl e \<Rightarrow> Inl e
                               | Inr loss \<Rightarrow>
                                   Inr (sum_list loss / real (length loss),
                                        length generated,
                                        real (length (filter (\<lambda>l. l > IS_THRESHOLD) loss))
                                          / real (length generated) * 100)))))))"

section \<open>Concrete inputs\<close>

text \<open>
  Inputs at which the definitions above are evaluated below: an initialiser that sets every
  weight to zero and every bias to \<open>b\<close> (to zero, for \<open>zero_init\<close>), dropout in
  evaluation mode, a sphere of two vertices, and the default keyword arguments of the
  constructors.
\<close>

definition bias_init :: "real \<Rightarrow> initialiser" where
  "bias_init b name i n_in n_out =
     \<lparr>weight = replicate n_out (replicate n_in 0), bias = replicate n_out b\<rparr>"

definition zero_init :: initialiser where
  "zero_init = bias_init 0"

definition Dropout_eval :: "real \<Rightarrow> matrix \<Rightarrow> matrix" where
  "Dropout_eval p x = x"

definition two_vertices :: "string \<Rightarrow> error + matrix" where
  "two_vertices name = Inr [[1, 0, 0], [0, 1, 0]]"

definition default_args :: "nat \<Rightarrow> real option \<Rightarrow> dg_args" where
  "default_args n d =
     \<lparr>arg_input_size = n, arg_dropout = d, arg_sphere = ''symmetric724'',
      arg_nb_gaussians = 3, arg_n_cluster = 3\<rparr>"

definition valid_dropout :: "real option \<Rightarrow> bool" where
  \<comment> \<open>the dropout rates the constructor accepts: \<open>None\<close>, or a rate from 0 to 1\<close>
  "valid_dropout d = (\<not> (truthy d \<and> (the d < 0 \<or> the d > 1)))"

text \<open>
  A checkpoint that holds a saved state for both monitors, a parent class that restores
  nothing of its own, and a \<open>set_state\<close> that installs the saved state.
\<close>

definition keep_trainer :: "(string \<rightharpoonup> monitor) \<Rightarrow> trainer \<Rightarrow> error + trainer" where
  "keep_trainer states self = Inr self"

definition install_state :: "monitor \<Rightarrow> monitor \<Rightarrow> monitor" where
  "install_state s m = s"

definition fresh_monitor :: monitor where
  "fresh_monitor = \<lparr>current_epoch = -1, average_per_epoch = []\<rparr>"

definition fresh_trainer :: trainer where
  "fresh_trainer =
     \<lparr>tracking_phase_nb_steps_init = 5,
      tracking_valid_loss_monitor = fresh_monitor,
      tracking_valid_IS_monitor = fresh_monitor\<rparr>"

definition saved_states :: "string \<rightharpoonup> monitor" where
  "saved_states =
     [''tracking_valid_loss_monitor_state'' \<mapsto>
        \<lparr>current_epoch = 2, average_per_epoch = [3, 2, 1]\<rparr>,
      ''tracking_valid_IS_monitor_state'' \<mapsto>
        \<lparr>current_epoch = 2, average_per_epoch = [10, 20, 30]\<rparr>]"

text \<open>
  A transformer model that accepts sequences of at most two points, in training context,
  with stages after the checks that pass their input on.
\<close>

definition identity_stage :: "'a \<Rightarrow> error + 'a" where
  "identity_stage x = Inr x"

definition return_inputs :: "'a \<Rightarrow> 'b \<Rightarrow> nat list \<Rightarrow> error + 'a" where
  "return_inputs x t unpad_lengths = Inr x"

definition short_model :: transformer_model where
  "short_model = \<lparr>max_len = 2, current_context = Some ''training''\<rparr>"

text \<open>The classification head over the sphere of two vertices.\<close>

definition two_vertex_head :: direction_getter where
  "two_vertex_head =
     projr (SphereClassification_init zero_init two_vertices 2 None ''symmetric724'')"

text \<open>A Fisher-von Mises head.\<close>

definition fvm_head :: direction_getter where
  "fvm_head = projr (FisherVonMises_init zero_init 2 None)"

text \<open>
  A propagation that ignores its input and returns one line ending at (100, 0, 0), and
  the identity stage above used as a propagation that returns the lines it was given.
\<close>

definition far_propagation :: "matrix list \<Rightarrow> error + matrix list" where
  "far_propagation lines = Inr [[[0, 0, 0], [100, 0, 0]]]"

text \<open>
  Two more propagations that ignore their input: one returns a line ending at
  (25.98, 0, 0), the other a line ending at the origin.
\<close>

definition boundary_propagation :: "matrix list \<Rightarrow> error + matrix list" where
  "boundary_propagation lines = Inr [[[2598 / 100, 0, 0]]]"

definition origin_propagation :: "matrix list \<Rightarrow> error + matrix list" where
  "origin_propagation lines = Inr [[[0, 0, 0]]]"

section \<open>Vectors as lists\<close>

lemma sum_squares_nonneg: "0 \<le> sum_list (map (\<lambda>x. x * x) (v :: real list))"
  by (rule sum_list_nonneg) auto

lemma norm2_nonneg: "0 \<le> norm2 v"
  by (simp add: norm2_def sum_squares_nonneg)

lemma sum_squares_div:
  "(\<Sum>x\<leftarrow>v. (x / c) * (x / c)) = (\<Sum>x\<leftarrow>v. x * x) / (c * c)"
  for c :: real
  by (induction v) (simp_all add: add_divide_distrib)

lemma norm2_div: "0 < c \<Longrightarrow> norm2 (map (\<lambda>x. x / c) v) = norm2 v / c"
proof -
  assume c: "0 < c"
  have "norm2 (map (\<lambda>x. x / c) v) = sqrt ((\<Sum>x\<leftarrow>v. (x / c) * (x / c)))"
    by (simp add: norm2_def o_def)
  also have "\<dots> = sqrt ((\<Sum>x\<leftarrow>v. x * x) / (c * c))"
    by (simp only: sum_squares_div)
  also have "\<dots> = sqrt (\<Sum>x\<leftarrow>v. x * x) / sqrt (c * c)"
    by (rule real_sqrt_divide)
  also have "sqrt (c * c) = c" using c by simp
  finally show ?thesis by (simp add: norm2_def)
qed

lemma sum_sq_diff:
  "length u = length v \<Longrightarrow>
   sum_list (map2 (\<lambda>a b. (a - b) * (a - b)) u v) = dot u u + dot v v - 2 * dot u v"
  unfolding dot_def by (induction u v rule: list_induct2) (auto simp: algebra_simps)

lemma sum_sq_diff_nonneg: "0 \<le> sum_list (map2 (\<lambda>a b. (a - b) * (a - b)) u (v::real list))"
  by (rule sum_list_nonneg) auto

lemma sum_sq_diff_zero:
  "length u = length v \<Longrightarrow>
   sum_list (map2 (\<lambda>a b. (a - b) * (a - b)) u v) = 0 \<Longrightarrow> u = (v::real list)"
proof (induction u v rule: list_induct2)
  case Nil
  then show ?case by simp
next
  case (Cons a u b v)
  have "0 \<le> (a - b) * (a - b)" by simp
  moreover have "0 \<le> sum_list (map2 (\<lambda>a b. (a - b) * (a - b)) u v)"
    by (rule sum_sq_diff_nonneg)
  moreover have "(a - b) * (a - b) + sum_list (map2 (\<lambda>a b. (a - b) * (a - b)) u v) = 0"
    using Cons.prems by simp
  ultimately have "(a - b) * (a - b) = 0" "sum_list (map2 (\<lambda>a b. (a - b) * (a - b)) u v) = 0"
    by linarith+
  then show ?case using Cons.IH by simp
qed

lemma norm2_one_dot: "norm2 v = 1 \<Longrightarrow> dot v v = 1"
proof -
  assume "norm2 v = 1"
  then have "sqrt (sum_list (map (\<lambda>x. x * x) v)) = 1" by (simp add: norm2_def)
  then have "sum_list (map (\<lambda>x. x * x) v) = 1" by simp
  moreover have "map2 (*) v v = map (\<lambda>x. x * x) v"
    by (induction v) auto
  ultimately show ?thesis by (simp add: dot_def)
qed

lemma dot_self: "dot v v = (\<Sum>x\<leftarrow>v. x * x)"
  unfolding dot_def by (induction v) auto

lemma dot_commute: "dot u v = dot v u"
  unfolding dot_def
proof (induction u arbitrary: v)
  case Nil
  then show ?case by simp
next
  case (Cons a u)
  then show ?case by (cases v) (simp_all add: mult.commute)
qed

lemma dot_vscale: "dot (vscale k u) v = k * dot u v"
  unfolding dot_def vscale_def
proof (induction u arbitrary: v)
  case Nil
  then show ?case by simp
next
  case (Cons a u)
  then show ?case by (cases v) (simp_all add: algebra_simps)
qed

lemma dot_div: "dot (map (\<lambda>x. x / c) u) v = dot u v / c"
  unfolding dot_def
proof (induction u arbitrary: v)
  case Nil
  then show ?case by simp
next
  case (Cons a u)
  then show ?case by (cases v) (simp_all add: add_divide_distrib)
qed

lemma dot_vsub:
  "length a = length b \<Longrightarrow> length b = length c \<Longrightarrow>
   dot (vsub a b) c = dot a c - dot b c"
  unfolding dot_def vsub_def
  by (induction a b c rule: list_induct3) (simp_all add: algebra_simps)

lemma sum_squares_combination:
  "length v = length mu \<Longrightarrow>
   (\<Sum>x\<leftarrow>vadd (vscale s v) (vscale w mu). x * x)
     = s * s * (\<Sum>x\<leftarrow>v. x * x) + 2 * s * w * dot v mu + w * w * (\<Sum>x\<leftarrow>mu. x * x)"
  unfolding dot_def vadd_def vscale_def
  by (induction v mu rule: list_induct2) (simp_all add: algebra_simps)

section \<open>Properties of the direction getters\<close>

subsection \<open>Evaluating a network with zero weights\<close>

lemmas init_defs =
  CosineRegression_init_def L2Regression_init_def SphereClassification_init_def
  SingleGaussian_init_def GaussianMixture_init_def FisherVonMises_init_def
  FisherVonMisesMixture_init_def AbstractDirectionGetterModel_init_def register_def

lemma map_err_Inr:
  "(\<And>x. x \<in> set xs \<Longrightarrow> f x = Inr (g x)) \<Longrightarrow> map_err f xs = Inr (map g xs)"
  by (induction xs) auto

lemma dot_zero: "dot (replicate n 0) x = 0"
  unfolding dot_def by (induction n arbitrary: x) (auto simp: zip_Cons1 split: list.splits)

lemma linear_row_bias:
  "length x = n_in \<Longrightarrow>
   linear_row (bias_init b name i n_in n_out) x = Inr (replicate n_out b)"
  by (auto simp: linear_row_def bias_init_def list_all_iff dot_zero intro!: nth_equalityI)

lemma linear_apply_bias:
  "\<forall>x \<in> set xs. length x = n_in \<Longrightarrow>
   linear_apply (bias_init b name i n_in n_out) xs = Inr (map (\<lambda>x. replicate n_out b) xs)"
  unfolding linear_apply_def by (rule map_err_Inr) (simp add: linear_row_bias)

lemma bias_network:
  assumes "\<forall>x \<in> set xs. length x = n" "\<not> truthy (dropout self)"
  shows "loop_on_layers Dropout self xs (init_2layer_fully_connected (bias_init b) name n out)
         = Inr (map (\<lambda>x. replicate out b) xs)"
  using assms
  by (simp add: init_2layer_fully_connected_def Let_def linear_apply_bias dropout_sublayer_def
       relu_sublayer_def o_def)

lemma zero_network:
  assumes "\<forall>x \<in> set xs. length x = n" "\<not> truthy (dropout self)"
  shows "loop_on_layers Dropout self xs (init_2layer_fully_connected zero_init name n out)
         = Inr (map (\<lambda>x. replicate out 0) xs)"
  unfolding zero_init_def using assms by (rule bias_network)

subsection \<open>The Gaussian heads' \<open>forward\<close>\<close>

text \<open>
  C1 (the code departs from the claim). The constructors of the single-Gaussian and the
  Gaussian-mixture heads store the sigma layers under \<open>layers_sigmas\<close>; \<open>forward\<close>
  reads \<open>self.layers_sigma\<close>. On a head built with input size 2 and the batch
  \<open>[[1, 2]]\<close>, the means are computed and the read of the missing attribute raises
  AttributeError: \<open>forward\<close> returns no parameter tuple.
\<close>

theorem gaussian_forward_raises:
  "forward Dropout_eval (projr (SingleGaussian_init zero_init 2 None)) [[1, 2]]
     = Inl (AttributeError ''layers_sigma'')
   \<and> forward Dropout_eval (projr (GaussianMixture_init zero_init 2 None 3)) [[1, 2]]
     = Inl (AttributeError ''layers_sigma'')"
  by (simp add: forward_def init_defs truthy_def SingleGaussian_forward_def
      GaussianMixture_forward_def run_layers_def getattr_layers_def zero_network)

text \<open>
  The same holds of every head the two constructors build, for every batch and every
  dropout: \<open>forward\<close> ends in an error.
\<close>

lemma gaussian_forward_never_returns:
  "SingleGaussian_init Linear n d = Inr self \<Longrightarrow> \<exists>e. forward Dropout self inputs = Inl e"
  "GaussianMixture_init Linear n d k = Inr self \<Longrightarrow> \<exists>e. forward Dropout self inputs = Inl e"
  by (auto simp: forward_def init_defs SingleGaussian_forward_def GaussianMixture_forward_def
      run_layers_def getattr_layers_def split: if_splits sum.splits)

subsection \<open>The classification head's deterministic direction\<close>

text \<open>
  C2 (the code departs from the claim). \<open>get_tracking_direction_det\<close> of the
  classification head takes the arg-max of the whole logits tensor, not of each row. With
  two vertices and the logits \<open>[[0, 0], [0, 1]]\<close> (B = 2) the flat index of the maximum
  is 3, outside the two vertices: IndexError. With \<open>[[5, 0], [0, 1]]\<close> the result is the
  single vertex \<open>[1, 0, 0]\<close>, a tensor of shape [3], where the claim asks for the two
  rows \<open>[[1, 0, 0], [0, 1, 0]]\<close>.
\<close>

theorem sphere_det_flat_argmax:
  "get_tracking_direction_det
     (projr (SphereClassification_init zero_init two_vertices 2 None ''symmetric724''))
     (Tensor2 [[0, 0], [0, 1]]) = Inl IndexError
   \<and> get_tracking_direction_det
     (projr (SphereClassification_init zero_init two_vertices 2 None ''symmetric724''))
     (Tensor2 [[5, 0], [0, 1]]) = Inr (Tensor1 [1, 0, 0])"
  by (simp add: get_tracking_direction_det_def init_defs truthy_def two_vertices_def
      SphereClassification_get_tracking_direction_det_def argmax_def)

subsection \<open>Unsupported operations\<close>

lemma construct_cls: "construct Linear get_sphere c a = Inr self \<Longrightarrow> cls self = c"
  by (cases c) (auto simp: init_defs split: if_splits sum.splits)

text \<open>
  C5. \<open>sample_tracking_direction_prob\<close> of the cosine and of the L2 regression head
  raises NotImplementedError on every input; and on every head that the constructor of the
  single-Gaussian, the Gaussian-mixture or the Fisher-von Mises class returns,
  \<open>get_tracking_direction_det\<close> raises NotImplementedError on every input. Neither
  returns a direction.
\<close>

theorem unsupported_operations:
  "CosineRegression_sample_tracking_direction_prob self outs
     = Inl (NotImplementedError
         ''This regression model does not support probabilistic tractography.'')
   \<and> L2Regression_sample_tracking_direction_prob self outs
     = Inl (NotImplementedError
         ''This regression model does not support probabilistic tractography.'')
   \<and> (\<forall>c \<in> {SingleGaussianDirectionGetter, GaussianMixtureDirectionGetter,
               FisherVonMisesDirectionGetter}.
        \<forall>Linear get_sphere a head. construct Linear get_sphere c a = Inr head \<longrightarrow>
          get_tracking_direction_det head outs = Inl (NotImplementedError ''''))"
proof -
  have det: "get_tracking_direction_det head outs = Inl (NotImplementedError [])"
    if "construct Linear get_sphere c a = Inr head"
      and "c \<in> {SingleGaussianDirectionGetter, GaussianMixtureDirectionGetter,
               FisherVonMisesDirectionGetter}"
    for Linear get_sphere c a head
    using construct_cls [OF that(1)] that(2)
    by (auto simp: get_tracking_direction_det_def)
  show ?thesis
    unfolding CosineRegression_sample_tracking_direction_prob_def
      L2Regression_sample_tracking_direction_prob_def
    using det by blast
qed

theorem unsupported_operations_witness:
  "\<exists>head. construct zero_init two_vertices FisherVonMisesDirectionGetter (default_args 4 None)
       = Inr head
     \<and> get_tracking_direction_det head (Tuple2 (Tensor2 [[1, 0, 0]]) (Tensor1 [10]))
       = Inl (NotImplementedError '''')"
proof -
  obtain head where h:
    "construct zero_init two_vertices FisherVonMisesDirectionGetter (default_args 4 None)
       = Inr head"
    by (simp add: init_defs truthy_def default_args_def)
  from unsupported_operations [where outs = "Tuple2 (Tensor2 [[1, 0, 0]]) (Tensor1 [10])"] h
  have "get_tracking_direction_det head (Tuple2 (Tensor2 [[1, 0, 0]]) (Tensor1 [10]))
       = Inl (NotImplementedError [])"
    by blast
  with h show ?thesis by blast
qed

subsection \<open>The registry\<close>

lemma registry_lookup:
  "map_of keys_to_direction_getters ''cosine-regression'' = Some CosineRegressionDirectionGetter"
  "map_of keys_to_direction_getters ''l2-regression'' = Some L2RegressionDirectionGetter"
  "map_of keys_to_direction_getters ''sphere-classification''
     = Some SphereClassificationDirectionGetter"
  "map_of keys_to_direction_getters ''gaussian'' = Some SingleGaussianDirectionGetter"
  "map_of keys_to_direction_getters ''gaussian-mixture'' = Some GaussianMixtureDirectionGetter"
  "map_of keys_to_direction_getters ''fisher-von-mises'' = Some FisherVonMisesDirectionGetter"
  "map_of keys_to_direction_getters ''fisher-von-mises-mixture''
     = Some FisherVonMisesMixtureDirectionGetter"
  by (simp_all add: keys_to_direction_getters_def)

lemma registry_keys:
  assumes "k \<in> set (map fst keys_to_direction_getters)"
  shows "k = ''cosine-regression'' \<or> k = ''l2-regression'' \<or> k = ''sphere-classification''
       \<or> k = ''gaussian'' \<or> k = ''gaussian-mixture'' \<or> k = ''fisher-von-mises''
       \<or> k = ''fisher-von-mises-mixture''"
  using assms unfolding keys_to_direction_getters_def by simp

text \<open>
  C10 (as amended). For every key \<open>k\<close> of the registry other than
  \<open>'fisher-von-mises-mixture'\<close>, every head that constructing the mapped class yields
  stores \<open>k\<close> as its key, and the construction does yield a head when the dropout rate
  is valid (and, for the classification head, the sphere exists). For
  \<open>'fisher-von-mises-mixture'\<close> the construction never yields a head: it raises the
  stub's NotImplementedError when the dropout rate is valid, and the parent constructor's
  ValueError when it is not.
\<close>

theorem registry_round_trip:
  assumes "k \<in> set (map fst keys_to_direction_getters)"
  shows "(k \<noteq> ''fisher-von-mises-mixture'' \<longrightarrow>
           (\<forall>self. construct_from_key Linear get_sphere k a = Inr self \<longrightarrow> key self = k)
         \<and> (valid_dropout (arg_dropout a)
              \<and> (k = ''sphere-classification'' \<longrightarrow> (\<exists>vs. get_sphere (arg_sphere a) = Inr vs))
            \<longrightarrow> (\<exists>self. construct_from_key Linear get_sphere k a = Inr self)))
       \<and> (k = ''fisher-von-mises-mixture'' \<longrightarrow>
           construct_from_key Linear get_sphere k a
             = Inl (if valid_dropout (arg_dropout a) then NotImplementedError ''''
                    else ValueError ''Dropout rate should be between 0 and 1.''))"
  using registry_keys [OF assms]
proof (elim disjE)
  assume k: "k = ''cosine-regression''"
  show ?thesis
    unfolding k
    by (auto simp: construct_from_key_def registry_lookup valid_dropout_def
        CosineRegression_init_def AbstractDirectionGetterModel_init_def register_def
        split: if_splits)
next
  assume k: "k = ''l2-regression''"
  show ?thesis
    unfolding k
    by (auto simp: construct_from_key_def registry_lookup valid_dropout_def
        L2Regression_init_def AbstractDirectionGetterModel_init_def register_def
        split: if_splits)
next
  assume k: "k = ''sphere-classification''"
  show ?thesis
    unfolding k
    by (auto simp: construct_from_key_def registry_lookup valid_dropout_def
        SphereClassification_init_def AbstractDirectionGetterModel_init_def register_def
        split: if_splits sum.splits)
next
  assume k: "k = ''gaussian''"
  show ?thesis
    unfolding k
    by (auto simp: construct_from_key_def registry_lookup valid_dropout_def
        SingleGaussian_init_def AbstractDirectionGetterModel_init_def register_def
        split: if_splits)
next
  assume k: "k = ''gaussian-mixture''"
  show ?thesis
    unfolding k
    by (auto simp: construct_from_key_def registry_lookup valid_dropout_def
        GaussianMixture_init_def AbstractDirectionGetterModel_init_def register_def
        split: if_splits)
next
  assume k: "k = ''fisher-von-mises''"
  show ?thesis
    unfolding k
    by (auto simp: construct_from_key_def registry_lookup valid_dropout_def
        FisherVonMises_init_def AbstractDirectionGetterModel_init_def register_def
        split: if_splits)
next
  assume k: "k = ''fisher-von-mises-mixture''"
  show ?thesis
    unfolding k
    by (auto simp: construct_from_key_def registry_lookup valid_dropout_def
        FisherVonMisesMixture_init_def AbstractDirectionGetterModel_init_def register_def
        split: if_splits)
qed

theorem registry_round_trip_witness:
  "''gaussian'' \<in> set (map fst keys_to_direction_getters)
   \<and> (\<exists>self. construct_from_key zero_init two_vertices ''gaussian'' (default_args 4 (Some (1/2)))
               = Inr self \<and> key self = ''gaussian'')"
proof -
  have k: "''gaussian'' \<in> set (map fst keys_to_direction_getters)"
    by (simp add: keys_to_direction_getters_def)
  have v: "valid_dropout (arg_dropout (default_args 4 (Some (1/2))))"
    by (simp add: valid_dropout_def default_args_def truthy_def)
  from registry_round_trip [OF k, of zero_init two_vertices "default_args 4 (Some (1/2))"] v
  show ?thesis using k by fastforce
qed

text \<open>
  The claim as stated fails with a dropout rate of 2: the parent constructor, called
  first, raises ValueError, and the stub's own error is never reached.
\<close>

theorem mixture_stub_counterexample:
  "construct_from_key zero_init two_vertices ''fisher-von-mises-mixture''
       (default_args 4 (Some 2))
     = Inl (ValueError ''Dropout rate should be between 0 and 1.'')
   \<and> construct_from_key zero_init two_vertices ''fisher-von-mises-mixture''
       (default_args 4 (Some 2))
     \<noteq> Inl (NotImplementedError '''')"
  by (simp add: construct_from_key_def registry_lookup default_args_def
      FisherVonMisesMixture_init_def AbstractDirectionGetterModel_init_def truthy_def)

subsection \<open>Nearest vertex of the sphere\<close>

lemma argmax_from_spec:
  assumes "ys = pre @ xs" "length pre = i" "bi < i" "ys ! bi = b"
      and "\<forall>j < i. ys ! j \<le> b" "\<forall>j < bi. ys ! j < b"
  shows "argmax_from bi b i xs < length ys
       \<and> (\<forall>j < length ys. ys ! j \<le> ys ! argmax_from bi b i xs)
       \<and> (\<forall>j < argmax_from bi b i xs. ys ! j < ys ! argmax_from bi b i xs)"
  using assms
proof (induction xs arbitrary: bi b i pre)
  case Nil
  then show ?case by auto
next
  case (Cons x xs)
  have yi: "ys ! i = x" using Cons.prems(1,2) by (simp add: nth_append)
  have app: "ys = (pre @ [x]) @ xs" using Cons.prems(1) by simp
  have len: "length (pre @ [x]) = Suc i" using Cons.prems(2) by simp
  show ?case
  proof (cases "b < x")
    case True
    have le: "\<forall>j < Suc i. ys ! j \<le> x"
    proof (intro allI impI)
      fix j assume "j < Suc i"
      then consider "j < i" | "j = i" by linarith
      then show "ys ! j \<le> x"
      proof cases
        case 1
        then have "ys ! j \<le> b" using Cons.prems(5) by simp
        with True show ?thesis by simp
      next
        case 2
        then show ?thesis using yi by simp
      qed
    qed
    have lt: "\<forall>j < i. ys ! j < x"
    proof (intro allI impI)
      fix j assume "j < i"
      then have "ys ! j \<le> b" using Cons.prems(5) by simp
      with True show "ys ! j < x" by simp
    qed
    from Cons.IH [OF app len _ yi le lt] True show ?thesis by simp
  next
    case False
    have le: "\<forall>j < Suc i. ys ! j \<le> b"
    proof (intro allI impI)
      fix j assume "j < Suc i"
      then consider "j < i" | "j = i" by linarith
      then show "ys ! j \<le> b"
      proof cases
        case 1
        then show ?thesis using Cons.prems(5) by simp
      next
        case 2
        then show ?thesis using yi False by simp
      qed
    qed
    have "bi < Suc i" using Cons.prems(3) by simp
    from Cons.IH [OF app len this Cons.prems(4) le Cons.prems(6)] False show ?thesis by simp
  qed
qed

lemma argmax_spec:
  assumes "xs \<noteq> []"
  shows "\<exists>k. argmax xs = Inr k \<and> k < length xs
           \<and> (\<forall>j < length xs. xs ! j \<le> xs ! k) \<and> (\<forall>j < k. xs ! j < xs ! k)"
proof -
  from assms obtain x rest where xs: "xs = x # rest" by (cases xs) auto
  have "argmax_from 0 x 1 rest < length xs
       \<and> (\<forall>j < length xs. xs ! j \<le> xs ! argmax_from 0 x 1 rest)
       \<and> (\<forall>j < argmax_from 0 x 1 rest. xs ! j < xs ! argmax_from 0 x 1 rest)"
    by (rule argmax_from_spec [where pre = "[x]"]) (simp_all add: xs)
  then show ?thesis by (simp add: argmax_def xs)
qed

lemma dot_unit_lt:
  assumes "length u = length v" "norm2 u = 1" "norm2 v = 1" "u \<noteq> v"
  shows "dot u v < dot u u"
proof -
  have s: "sum_list (map2 (\<lambda>a b. (a - b) * (a - b)) u v) = 2 - 2 * dot u v"
    using sum_sq_diff [OF assms(1)] norm2_one_dot [OF assms(2)] norm2_one_dot [OF assms(3)]
    by simp
  have "sum_list (map2 (\<lambda>a b. (a - b) * (a - b)) u v) \<noteq> 0"
    using sum_sq_diff_zero [OF assms(1)] assms(4) by blast
  with sum_sq_diff_nonneg [of u v] have "0 < sum_list (map2 (\<lambda>a b. (a - b) * (a - b)) u v)"
    by linarith
  with s have "dot u v < 1" by linarith
  then show ?thesis using norm2_one_dot [OF assms(2)] by simp
qed

lemma int16_index: "i < 32768 \<Longrightarrow> nat (sint (word_of_nat i :: 16 word)) = i"
proof -
  assume a: "i < 32768"
  have "signed_take_bit 15 (int i) = int i"
    using a by (intro signed_take_bit_int_eq_self) simp_all
  then have "sint (word_of_nat i :: 16 word) = int i"
    by (simp add: signed_of_nat)
  then show ?thesis by simp
qed


lemma map_err_spec:
  "(\<And>x. x \<in> set xs \<Longrightarrow> \<exists>y. f x = Inr y \<and> P x y) \<Longrightarrow>
   \<exists>ys. map_err f xs = Inr ys \<and> list_all2 P xs ys"
proof (induction xs)
  case Nil
  then show ?case by simp
next
  case (Cons x xs)
  from Cons.prems obtain y where y: "f x = Inr y" "P x y" by auto
  from Cons obtain ys where ys: "map_err f xs = Inr ys" "list_all2 P xs ys" by auto
  from y ys show ?case by simp
qed

text \<open>
  C6. For a classification head with a non-empty sphere of at most 32768 vertices (the
  range of the 16-bit index; the sphere of the source has 724), vertices and directions
  of three components: \<open>_find_closest_vertex\<close> returns one index per direction; the
  index is that of a vertex whose dot product with the direction is maximal over all
  vertices, and every vertex before it has a strictly smaller dot product (the first
  maximum). When the vertices are unit vectors, all different, a direction equal to a
  vertex gets that vertex's own index.
\<close>

theorem find_closest_vertex_first_argmax:
  assumes "vertices self = Some vs" "vs \<noteq> []" "length vs \<le> 32768"
      and "\<forall>v \<in> set vs. length v = 3" "\<forall>d \<in> set directions. length d = 3"
  shows "\<exists>index. find_closest_vertex self directions = Inr index
       \<and> length index = length directions
       \<and> (\<forall>n < length directions.
            nat (sint (index ! n)) < length vs
          \<and> (\<forall>j < length vs.
                dot (directions ! n) (vs ! j)
                  \<le> dot (directions ! n) (vs ! nat (sint (index ! n))))
          \<and> (\<forall>j < nat (sint (index ! n)).
                dot (directions ! n) (vs ! j)
                  < dot (directions ! n) (vs ! nat (sint (index ! n))))
          \<and> ((\<forall>v \<in> set vs. norm2 v = 1) \<and> distinct vs \<longrightarrow>
               (\<forall>m < length vs. directions ! n = vs ! m \<longrightarrow> nat (sint (index ! n)) = m)))"
proof -
  let ?P = "\<lambda>(row :: real list) k. k < length row
             \<and> (\<forall>j < length row. row ! j \<le> row ! k) \<and> (\<forall>j < k. row ! j < row ! k)"
  let ?sim = "map (\<lambda>d. map (dot d) vs) directions"
  have mm: "matmul_transposed directions vs = Inr ?sim"
    unfolding matmul_transposed_def
    by (rule map_err_Inr) (use assms(4,5) in \<open>simp add: list_all_iff\<close>)
  have "\<exists>ks. map_err argmax ?sim = Inr ks \<and> list_all2 ?P ?sim ks"
  proof (rule map_err_spec)
    fix row assume "row \<in> set ?sim"
    then have "row \<noteq> []" using assms(2) by auto
    from argmax_spec [OF this] show "\<exists>y. argmax row = Inr y \<and> ?P row y" by simp
  qed
  then obtain ks where ks: "map_err argmax ?sim = Inr ks" "list_all2 ?P ?sim ks" by blast
  have len: "length ks = length directions"
    using list_all2_lengthD [OF ks(2)] by simp
  have res: "find_closest_vertex self directions = Inr (map word_of_nat ks)"
    by (simp add: find_closest_vertex_def assms(1) mm ks(1))
  have main: "nat (sint ((map word_of_nat ks :: 16 word list) ! n)) < length vs
          \<and> (\<forall>j < length vs.
                dot (directions ! n) (vs ! j)
                  \<le> dot (directions ! n)
                      (vs ! nat (sint ((map word_of_nat ks :: 16 word list) ! n))))
          \<and> (\<forall>j < nat (sint ((map word_of_nat ks :: 16 word list) ! n)).
                dot (directions ! n) (vs ! j)
                  < dot (directions ! n)
                      (vs ! nat (sint ((map word_of_nat ks :: 16 word list) ! n))))
          \<and> ((\<forall>v \<in> set vs. norm2 v = 1) \<and> distinct vs \<longrightarrow>
               (\<forall>m < length vs. directions ! n = vs ! m
                  \<longrightarrow> nat (sint ((map word_of_nat ks :: 16 word list) ! n)) = m))"
    if n: "n < length directions" for n
  proof -
    let ?d = "directions ! n"
    let ?k = "ks ! n"
    have simn: "?sim ! n = map (dot ?d) vs" using n by simp
    have "?P (?sim ! n) ?k"
      by (rule list_all2_nthD [OF ks(2)]) (use n in simp)
    then have Pn: "?P (map (dot ?d) vs) ?k"
      unfolding simn .
    have k1: "?k < length vs" using Pn by simp
    have k2: "\<forall>j < length vs. dot ?d (vs ! j) \<le> dot ?d (vs ! ?k)"
    proof (intro allI impI)
      fix j assume j: "j < length vs"
      from Pn j have "map (dot ?d) vs ! j \<le> map (dot ?d) vs ! ?k" by auto
      with j k1 show "dot ?d (vs ! j) \<le> dot ?d (vs ! ?k)" by simp
    qed
    have k3: "\<forall>j < ?k. dot ?d (vs ! j) < dot ?d (vs ! ?k)"
    proof (intro allI impI)
      fix j assume j: "j < ?k"
      then have jl: "j < length vs" using k1 by simp
      from Pn j have "map (dot ?d) vs ! j < map (dot ?d) vs ! ?k" by auto
      with jl k1 show "dot ?d (vs ! j) < dot ?d (vs ! ?k)" by simp
    qed
    note k = k1 k2 k3
    have idx: "nat (sint ((map word_of_nat ks :: 16 word list) ! n)) = ?k"
      using n len k(1) assms(3) by (simp add: int16_index)
    have uniq: "?k = m"
      if u: "\<forall>v \<in> set vs. norm2 v = 1" and dist: "distinct vs"
        and m: "m < length vs" and dm: "?d = vs ! m" for m
    proof (rule ccontr)
      assume ne: "?k \<noteq> m"
      then have "vs ! m \<noteq> vs ! ?k"
        using dist m k(1) by (simp add: nth_eq_iff_index_eq)
      moreover have "length (vs ! m) = length (vs ! ?k)"
        using assms(4) m k(1) by simp
      moreover have "norm2 (vs ! m) = 1" "norm2 (vs ! ?k) = 1"
        using u m k(1) by simp_all
      ultimately have "dot (vs ! m) (vs ! ?k) < dot (vs ! m) (vs ! m)"
        by (intro dot_unit_lt) simp_all
      moreover have "dot (vs ! m) (vs ! m) \<le> dot (vs ! m) (vs ! ?k)"
        using k(2) m dm by simp
      ultimately show False by simp
    qed
    show ?thesis unfolding idx using k uniq by blast
  qed
  show ?thesis
    by (rule exI [of _ "map word_of_nat ks"]) (use res len main in simp)
qed

theorem find_closest_vertex_first_argmax_witness:
  "vertices two_vertex_head = Some [[1, 0, 0], [0, 1, 0]]
   \<and> list_all (\<lambda>v. length v = 3 \<and> norm2 v = 1) [[1, 0, 0], [0, 1, 0]]
   \<and> distinct [[1, 0, 0], [0, 1, 0 :: real]]
   \<and> list_all (\<lambda>d. length d = 3) [[0, 1, 0], [2, 1, 0 :: real]]
   \<and> (\<exists>index. find_closest_vertex two_vertex_head [[0, 1, 0], [2, 1, 0]] = Inr index
        \<and> nat (sint (index ! 0)) = 1)"
proof -
  have v: "vertices two_vertex_head = Some [[1, 0, 0], [0, 1, 0]]"
    by (simp add: two_vertex_head_def SphereClassification_init_def
        AbstractDirectionGetterModel_init_def truthy_def two_vertices_def register_def)
  have u: "\<forall>v \<in> set [[1, 0, 0], [0, 1, 0 :: real]]. norm2 v = 1"
    by (simp add: norm2_def)
  from find_closest_vertex_first_argmax [OF v, of "[[0, 1, 0], [2, 1, 0]]"] u
  obtain index where
    "find_closest_vertex two_vertex_head [[0, 1, 0], [2, 1, 0]] = Inr index"
    "\<forall>m < 2. [0, 1, 0] = [[1, 0, 0], [0, 1, 0 :: real]] ! m \<longrightarrow> nat (sint (index ! 0)) = m"
    by force
  then have "find_closest_vertex two_vertex_head [[0, 1, 0], [2, 1, 0]] = Inr index
        \<and> nat (sint (index ! 0)) = 1"
    by simp
  with v u show ?thesis by (auto simp: norm2_def)
qed

subsection \<open>The Fisher-von Mises head's \<open>forward\<close>\<close>

lemma norm2_normalize:
  "(1 / 10 ^ 12 \<le> norm2 v \<longrightarrow> norm2 (normalize v) = 1)
   \<and> (norm2 v < 1 / 10 ^ 12 \<longrightarrow> norm2 (normalize v) = norm2 v * 10 ^ 12 \<and> norm2 (normalize v) < 1)"
proof (intro conjI impI)
  assume big: "1 / 10 ^ 12 \<le> norm2 v"
  then have pos: "0 < norm2 v"
    by (smt (verit) divide_pos_pos zero_less_power)
  from big have "max (norm2 v) (1 / 10 ^ 12) = norm2 v" by simp
  then have "norm2 (normalize v) = norm2 v / norm2 v"
    using norm2_div [OF pos, of v] by (simp add: normalize_def)
  then show "norm2 (normalize v) = 1" using pos by simp
next
  assume small: "norm2 v < 1 / 10 ^ 12"
  then have m: "max (norm2 v) (1 / 10 ^ 12) = 1 / 10 ^ 12" by simp
  have "norm2 (normalize v) = norm2 v / (1 / 10 ^ 12)"
    unfolding normalize_def m by (rule norm2_div) simp
  then show e: "norm2 (normalize v) = norm2 v * 10 ^ 12" by simp
  from small have "norm2 v * 10 ^ 12 < 1" by (simp add: field_simps)
  with e show "norm2 (normalize v) < 1" by simp
qed

lemma sigmoid_bounds: "0 < sigmoid x \<and> sigmoid x < 1"
proof -
  have e: "0 < exp (- x)" by simp
  then have p: "0 < 1 + exp (- x)" by linarith
  from e have "1 < 1 + exp (- x)" by linarith
  then have "1 / (1 + exp (- x)) < 1" using p by (simp only: divide_less_eq_1_pos)
  moreover have "0 < 1 / (1 + exp (- x))" using p by (simp only: zero_less_divide_1_iff)
  ultimately show ?thesis unfolding sigmoid_def by blast
qed

lemma entries_squeeze_last: "set (entries (squeeze_last m)) \<subseteq> set (concat m)"
proof (cases "list_all (\<lambda>r. length r = 1) m")
  case True
  have "hd r \<in> set r" if "r \<in> set m" for r
  proof -
    from True that have "length r = 1" by (simp add: list_all_iff)
    then show ?thesis by (cases r) auto
  qed
  then show ?thesis using True by (auto simp: squeeze_last_def)
next
  case False
  then show ?thesis by (simp add: squeeze_last_def)
qed

text \<open>
  C7 (as amended). When \<open>forward\<close> of a Fisher-von Mises head returns, it returns a pair
  of means and kappas with one mean per row of the mean layers' raw output; a mean is
  unit-norm when the raw row has norm at least 1e-12 (the clamp of the normalization), and
  has norm below 1 when the raw row is shorter than that (the zero vector for a zero row);
  every kappa lies strictly between 0 and 20, hence in [0, 20].
\<close>

theorem FisherVonMises_forward_output:
  assumes "cls self = FisherVonMisesDirectionGetter"
      and "forward Dropout self inputs = Inr out"
  shows "\<exists>raw means kappas.
           run_layers Dropout self inputs ''layers_mean'' = Inr raw
         \<and> out = Tuple2 (Tensor2 means) kappas
         \<and> length means = length raw
         \<and> (\<forall>i < length raw.
               (1 / 10 ^ 12 \<le> norm2 (raw ! i) \<longrightarrow> norm2 (means ! i) = 1)
             \<and> (norm2 (raw ! i) < 1 / 10 ^ 12 \<longrightarrow> norm2 (means ! i) < 1))
         \<and> (\<forall>k \<in> set (entries kappas). 0 < k \<and> k < 20)"
proof -
  from assms obtain raw ubk where
    raw: "run_layers Dropout self inputs ''layers_mean'' = Inr raw"
    and out: "out = Tuple2 (Tensor2 (map normalize raw))
                      (squeeze_last (map (map (\<lambda>k. sigmoid k * 20)) ubk))"
    by (auto simp: forward_def FisherVonMises_forward_def split: sum.splits)
  have kap: "0 < k \<and> k < 20"
    if "k \<in> set (entries (squeeze_last (map (map (\<lambda>k. sigmoid k * 20)) ubk)))" for k
  proof -
    from that entries_squeeze_last
    have "k \<in> set (concat (map (map (\<lambda>k. sigmoid k * 20)) ubk))" by blast
    then obtain x where "k = sigmoid x * 20" by auto
    with sigmoid_bounds [of x] show ?thesis by simp
  qed
  have mean: "(1 / 10 ^ 12 \<le> norm2 (raw ! i) \<longrightarrow> norm2 (map normalize raw ! i) = 1)
             \<and> (norm2 (raw ! i) < 1 / 10 ^ 12 \<longrightarrow> norm2 (map normalize raw ! i) < 1)"
    if "i < length raw" for i
    using that norm2_normalize [of "raw ! i"] by simp
  show ?thesis
    by (intro exI [of _ raw] exI [of _ "map normalize raw"]
        exI [of _ "squeeze_last (map (map (\<lambda>k. sigmoid k * 20)) ubk)"])
      (use raw out kap mean in simp)
qed

theorem FisherVonMises_forward_output_witness:
  "cls (projr (FisherVonMises_init (bias_init 1) 2 None)) = FisherVonMisesDirectionGetter
   \<and> forward Dropout_eval (projr (FisherVonMises_init (bias_init 1) 2 None)) [[1, 2]]
       = Inr (Tuple2 (Tensor2 [normalize [1, 1, 1]]) (Tensor1 [sigmoid 1 * 20]))
   \<and> norm2 (normalize [1, 1, 1]) = 1
   \<and> 0 < sigmoid 1 * 20 \<and> sigmoid 1 * 20 < 20"
proof -
  let ?h = "projr (FisherVonMises_init (bias_init 1) 2 None)"
  have c: "cls ?h = FisherVonMisesDirectionGetter"
    by (simp add: init_defs truthy_def)
  have raw: "run_layers Dropout_eval ?h [[1, 2]] ''layers_mean'' = Inr [[1, 1, 1]]"
    by (simp add: init_defs truthy_def run_layers_def getattr_layers_def bias_network
        numeral_3_eq_3)
  have f: "forward Dropout_eval ?h [[1, 2]]
       = Inr (Tuple2 (Tensor2 [normalize [1, 1, 1]]) (Tensor1 [sigmoid 1 * 20]))"
    by (simp add: forward_def init_defs truthy_def FisherVonMises_forward_def run_layers_def
        getattr_layers_def bias_network squeeze_last_def numeral_3_eq_3)
  have big: "1 / 10 ^ 12 \<le> norm2 [1, 1, 1]"
  proof -
    have "(1::real) / 10 ^ 12 \<le> 1" by simp
    also have "\<dots> \<le> sqrt 3" by simp
    finally show ?thesis by (simp add: norm2_def)
  qed
  from FisherVonMises_forward_output [OF c f] raw big
  have "norm2 (normalize [1, 1, 1]) = 1 \<and> 0 < sigmoid 1 * 20 \<and> sigmoid 1 * 20 < 20"
    by force
  with c f show ?thesis by blast
qed

text \<open>
  The claim as stated fails on a head whose layers hold zero weights and biases: the raw
  mean of the batch \<open>[[1, 2]]\<close> is the zero vector, which the normalization returns
  as it is, with norm 0 and not 1.
\<close>

theorem zero_mean_counterexample:
  "forward Dropout_eval (projr (FisherVonMises_init zero_init 2 None)) [[1, 2]]
     = Inr (Tuple2 (Tensor2 [[0, 0, 0]]) (Tensor1 [10]))
   \<and> norm2 [0, 0, 0] = 0"
  by (simp add: forward_def init_defs truthy_def FisherVonMises_forward_def run_layers_def
      getattr_layers_def zero_network normalize_def squeeze_last_def sigmoid_def norm2_def
      numeral_3_eq_3)

subsection \<open>Sampling from the Fisher-von Mises head\<close>

lemma sample_weight_b_pos: "0 < 2 / (sqrt (4 * kappa ^ 2 + 4) + 2 * kappa)"
proof -
  have a: "sqrt ((2 * kappa) ^ 2) = \<bar>2 * kappa\<bar>" by (rule real_sqrt_abs)
  have "(2 * kappa) ^ 2 < 4 * kappa ^ 2 + 4" by (simp add: power2_eq_square)
  then have "sqrt ((2 * kappa) ^ 2) < sqrt (4 * kappa ^ 2 + 4)"
    by (rule real_sqrt_less_mono)
  then have "\<bar>2 * kappa\<bar> < sqrt (4 * kappa ^ 2 + 4)" unfolding a .
  then have "0 < sqrt (4 * kappa ^ 2 + 4) + 2 * kappa" by linarith
  then show ?thesis by (rule divide_pos_pos [OF zero_less_numeral])
qed

lemma candidate_bounds:
  assumes b: "0 < b" and z: "0 \<le> z" "z \<le> 1"
  shows "- 1 \<le> (1 - (1 + b) * z) / (1 - (1 - b) * z)
       \<and> (1 - (1 + b) * z) / (1 - (1 - b) * z) \<le> (1::real)"
proof -
  have D: "0 < 1 - (1 - b) * z"
  proof (cases "b \<le> 1")
    case True
    then have "(1 - b) * z \<le> (1 - b) * 1"
      using z by (intro mult_left_mono) simp_all
    then show ?thesis using b by simp
  next
    case False
    then have "(1 - b) * z \<le> 0"
      using z by (simp add: mult_nonpos_nonneg)
    then show ?thesis by simp
  qed
  have up: "1 - (1 + b) * z \<le> 1 - (1 - b) * z"
  proof -
    have "(1 - b) * z \<le> (1 + b) * z"
      using b z by (intro mult_right_mono) simp_all
    then show ?thesis by linarith
  qed
  have lo: "- 1 * (1 - (1 - b) * z) \<le> 1 - (1 + b) * z"
  proof -
    have "(1 - b) * z + (1 + b) * z = 2 * z" by (simp add: algebra_simps)
    then have "- (1 - (1 - b) * z) \<le> 1 - (1 + b) * z" using z by linarith
    then show ?thesis by (simp only: mult_minus1)
  qed
  have "((1 - (1 + b) * z) / (1 - (1 - b) * z) \<le> 1)
      = (1 - (1 + b) * z \<le> 1 - (1 - b) * z)"
    using D by (rule divide_le_eq_1_pos)
  with up have le: "(1 - (1 + b) * z) / (1 - (1 - b) * z) \<le> 1" by blast
  have "(- 1 \<le> (1 - (1 + b) * z) / (1 - (1 - b) * z))
      = (- 1 * (1 - (1 - b) * z) \<le> 1 - (1 + b) * z)"
    using D by (rule pos_le_divide_eq)
  with lo have ge: "- 1 \<le> (1 - (1 + b) * z) / (1 - (1 - b) * z)" by blast
  from le ge show ?thesis by blast
qed

lemma sample_weight_bounds:
  assumes "sample_weight kappa ds = Some w" "\<forall>(z, u) \<in> set ds. 0 \<le> z \<and> z \<le> 1"
  shows "- 1 \<le> w \<and> w \<le> 1"
  using assms
proof (induction ds)
  case Nil
  then show ?case by simp
next
  case (Cons p ds)
  obtain z u where p: "p = (z, u)" by (cases p)
  let ?b = "2 / (sqrt (4 * kappa ^ 2 + 4) + 2 * kappa)"
  let ?w = "(1 - (1 + ?b) * z) / (1 - (1 - ?b) * z)"
  from Cons.prems(2) p have z: "0 \<le> z" "z \<le> 1" by auto
  have cand: "- 1 \<le> ?w \<and> ?w \<le> 1"
    by (rule candidate_bounds [OF sample_weight_b_pos z])
  let ?x = "(1 - ?b) / (1 + ?b)"
  let ?c = "kappa * ?x + 2 * ln (1 - ?x ^ 2)"
  let ?accept = "u = 0 \<or> kappa * ?w + 2 * ln (1 - ?x * ?w) - ?c \<ge> ln u"
  have "sample_weight kappa (p # ds) = (if ?accept then Some ?w else sample_weight kappa ds)"
    unfolding p by (simp only: sample_weight.simps Let_def)
  with Cons.prems(1)
  have eq: "(if ?accept then Some ?w else sample_weight kappa ds) = Some w"
    by (simp only:)
  consider "w = ?w" | "sample_weight kappa ds = Some w"
  proof (cases ?accept)
    case True
    with eq have "Some ?w = Some w" by (simp only: if_True)
    then have "w = ?w" by (simp only: option.inject)
    then show ?thesis by (rule that(1))
  next
    case False
    with eq have "sample_weight kappa ds = Some w" by (simp only: if_False)
    then show ?thesis by (rule that(2))
  qed
  then show ?case
  proof cases
    case 1
    with cand show ?thesis by simp
  next
    case 2
    with Cons.IH Cons.prems(2) show ?thesis by simp
  qed
qed

lemma sample_orthonormal_to_unit:
  assumes "sample_orthonormal_to mu g = Some v" "norm2 mu = 1" "length g = length mu"
  shows "norm2 v = 1 \<and> dot v mu = 0 \<and> length v = length mu"
proof -
  let ?proj = "map (\<lambda>x. x / norm2 mu) (vscale (dot mu g) mu)"
  let ?orthto = "vsub g ?proj"
  from assms(1) have nz: "norm2 ?orthto \<noteq> 0" and v: "v = map (\<lambda>x. x / norm2 ?orthto) ?orthto"
    by (auto simp: sample_orthonormal_to_def Let_def split: if_splits)
  from nz norm2_nonneg [of ?orthto] have pos: "0 < norm2 ?orthto" by linarith
  have lp: "length ?proj = length mu" by (simp add: vscale_def)
  have lo: "length ?orthto = length mu" using assms(3) lp by (simp add: vsub_def)
  have "dot ?orthto mu = dot g mu - dot ?proj mu"
    by (rule dot_vsub) (simp_all add: assms(3) vscale_def)
  also have "dot ?proj mu = dot mu g * dot mu mu"
    by (simp add: dot_div dot_vscale assms(2))
  also have "dot mu mu = 1" by (rule norm2_one_dot [OF assms(2)])
  finally have orth: "dot ?orthto mu = 0" by (simp add: dot_commute)
  have "norm2 v = norm2 ?orthto / norm2 ?orthto"
    unfolding v by (rule norm2_div [OF pos])
  then have n: "norm2 v = 1" using pos by simp
  have "dot v mu = dot ?orthto mu / norm2 ?orthto"
    unfolding v by (rule dot_div)
  with orth have d: "dot v mu = 0" by simp
  from n d lo show ?thesis by (simp add: v)
qed

lemma sample_one_unit:
  assumes "sample_one mu kappa r = Returns d" "norm2 mu = 1" "length (snd r) = length mu"
      and "\<forall>(z, u) \<in> set (fst r). 0 \<le> z \<and> z \<le> 1"
  shows "norm2 d = 1 \<and> length d = length mu"
proof -
  from assms(1) obtain w v where
    w: "sample_weight kappa (fst r) = Some w"
    and v: "sample_orthonormal_to mu (snd r) = Some v"
    and d: "d = vadd (vscale (sqrt (1 - w ^ 2)) v) (vscale w mu)"
    by (auto simp: sample_one_def split: option.splits if_splits)
  from sample_weight_bounds [OF w assms(4)] have wb: "- 1 \<le> w" "w \<le> 1" by simp_all
  from sample_orthonormal_to_unit [OF v assms(2,3)]
  have vu: "norm2 v = 1" "dot v mu = 0" "length v = length mu" by simp_all
  have "\<bar>w\<bar> \<le> 1" using wb by (simp add: abs_le_iff)
  then have w2: "w ^ 2 \<le> 1" by (simp only: abs_square_le_1)
  then have "0 \<le> 1 - w ^ 2" by simp
  then have sq: "sqrt (1 - w ^ 2) * sqrt (1 - w ^ 2) = 1 - w ^ 2"
    by (simp only: real_sqrt_mult_self abs_of_nonneg)
  have ssv: "(\<Sum>x\<leftarrow>v. x * x) = 1"
    using norm2_one_dot [OF vu(1)] by (simp add: dot_self)
  have ssm: "(\<Sum>x\<leftarrow>mu. x * x) = 1"
    using norm2_one_dot [OF assms(2)] by (simp add: dot_self)
  have "(\<Sum>x\<leftarrow>d. x * x)
      = sqrt (1 - w ^ 2) * sqrt (1 - w ^ 2) * (\<Sum>x\<leftarrow>v. x * x)
        + 2 * sqrt (1 - w ^ 2) * w * dot v mu + w * w * (\<Sum>x\<leftarrow>mu. x * x)"
    unfolding d by (rule sum_squares_combination [OF vu(3)])
  also have "\<dots> = (1 - w ^ 2) * 1 + 2 * sqrt (1 - w ^ 2) * w * 0 + w * w * 1"
    by (simp only: sq ssv ssm vu(2))
  also have "\<dots> = 1" by (simp add: power2_eq_square)
  finally have "norm2 d = 1" by (simp add: norm2_def)
  moreover have "length d = length mu" by (simp add: d vadd_def vscale_def vu(3))
  ultimately show ?thesis by simp
qed


lemma assign_row_3: "length d = 3 \<Longrightarrow> assign_row d = Inr d"
  by (simp add: assign_row_def)

lemma sample_rows_unit:
  assumes "sample_rows mus kappas rs = Returns rows" "length kappas = length mus"
      and "\<forall>mu \<in> set mus. length mu = 3 \<and> norm2 mu = 1"
      and "\<forall>r \<in> set rs. (\<forall>(z, u) \<in> set (fst r). 0 \<le> z \<and> z \<le> 1) \<and> length (snd r) = 3"
  shows "length rows = length mus \<and> (\<forall>d \<in> set rows. length d = 3 \<and> norm2 d = 1)"
  using assms
proof (induction mus kappas rs arbitrary: rows rule: sample_rows.induct)
  case (1 kappas rs)
  then show ?case by simp
next
  case (2 mu mus rs)
  then show ?case by simp
next
  case (3 mu mus kappa kappas)
  then show ?case by simp
next
  case (4 mu mus kappa kappas r rs)
  from "4.prems"(1) obtain d where d: "sample_one mu kappa r = Returns d"
    by (auto split: outcome.splits)
  have mu: "length mu = 3" "norm2 mu = 1" using "4.prems"(3) by simp_all
  have r: "\<forall>(z, u) \<in> set (fst r). 0 \<le> z \<and> z \<le> 1" "length (snd r) = length mu"
    using "4.prems"(4) mu(1) by simp_all
  from sample_one_unit [OF d mu(2) r(2) r(1)] mu(1)
  have du: "norm2 d = 1" "length d = 3" by simp_all
  have row: "assign_row d = Inr d" by (rule assign_row_3 [OF du(2)])
  from "4.prems"(1) d row obtain rest where
    rest: "sample_rows mus kappas rs = Returns rest" and rows: "rows = d # rest"
    by (auto split: outcome.splits)
  have "length rest = length mus \<and> (\<forall>d \<in> set rest. length d = 3 \<and> norm2 d = 1)"
    using "4.IH" [OF d row rest] "4.prems"(2,3,4) by simp
  with du rows show ?case by simp
qed

lemma squeeze_dim1_shape0:
  "squeeze_dim1 t = Inr (Tensor2 m) \<Longrightarrow> shape0 t = Inr (length m)"
  by (cases t) (auto simp: squeeze_dim1_def shape0_def split: if_splits)

text \<open>
  C9. Given means of unit norm with three components, one kappa per mean, draws \<open>z\<close>
  in [0, 1] and normal vectors of three components: every direction that
  \<open>sample_tracking_direction_prob\<close> of the Fisher-von Mises head returns has norm 1,
  and there is one per mean. On the way: every weight \<open>_sample_weight\<close> accepts lies in
  [-1, 1], for every kappa; and every vector \<open>_sample_orthonormal_to\<close> returns for a
  unit \<open>mu\<close> is unit-norm and orthogonal to \<open>mu\<close>. The tensors are given as the
  method receives them, before it squeezes dimension 1 (means of shape [n, 1, 3] or
  [n, 3], kappas of shape [n, 1]).
\<close>

theorem fisher_sample_unit_norm:
  assumes "squeeze_dim1 mus_t = Inr (Tensor2 mus)"
      and "squeeze_dim1 kappas_t = Inr (Tensor1 kappas)"
      and "length kappas = length mus"
      and "\<forall>mu \<in> set mus. length mu = 3 \<and> norm2 mu = 1"
      and "\<forall>r \<in> set rs. (\<forall>(z, u) \<in> set (fst r). 0 \<le> z \<and> z \<le> 1) \<and> length (snd r) = 3"
  shows "(\<forall>out.
            FisherVonMises_sample_tracking_direction_prob self (Tuple2 mus_t kappas_t) rs
              = Returns out \<longrightarrow>
            (\<exists>dirs. out = Tensor2 dirs \<and> length dirs = length mus
               \<and> (\<forall>d \<in> set dirs. length d = 3 \<and> norm2 d = 1)))
       \<and> (\<forall>kappa ds w.
            sample_weight kappa ds = Some w \<and> (\<forall>(z, u) \<in> set ds. 0 \<le> z \<and> z \<le> 1) \<longrightarrow>
            - 1 \<le> w \<and> w \<le> 1)
       \<and> (\<forall>mu g v.
            sample_orthonormal_to mu g = Some v \<and> norm2 mu = 1 \<and> length g = length mu \<longrightarrow>
            norm2 v = 1 \<and> dot v mu = 0)"
proof (intro conjI allI impI)
  fix out
  assume r: "FisherVonMises_sample_tracking_direction_prob self (Tuple2 mus_t kappas_t) rs
              = Returns out"
  have sh: "shape0 mus_t = Inr (length mus)"
    by (rule squeeze_dim1_shape0 [OF assms(1)])
  from r obtain rows where rows: "sample_rows mus kappas rs = Returns rows"
    and out: "out = Tensor2 (rows @ replicate (length mus - length rows) [0, 0, 0])"
    by (auto simp: FisherVonMises_sample_tracking_direction_prob_def unpack2_def sh assms(1,2)
        split: outcome.splits)
  from sample_rows_unit [OF rows assms(3,4,5)]
  have u: "length rows = length mus" "\<forall>d \<in> set rows. length d = 3 \<and> norm2 d = 1"
    by simp_all
  from out u(1) have "out = Tensor2 rows" by simp
  with u show "\<exists>dirs. out = Tensor2 dirs \<and> length dirs = length mus
               \<and> (\<forall>d \<in> set dirs. length d = 3 \<and> norm2 d = 1)"
    by blast
next
  fix kappa ds w
  assume "sample_weight kappa ds = Some w \<and> (\<forall>(z, u) \<in> set ds. 0 \<le> z \<and> z \<le> 1)"
  then show "- 1 \<le> w" "w \<le> 1" using sample_weight_bounds by blast+
next
  fix mu g v
  assume "sample_orthonormal_to mu g = Some v \<and> norm2 mu = 1 \<and> length g = length mu"
  then show "norm2 v = 1" "dot v mu = 0" using sample_orthonormal_to_unit by blast+
qed

lemma sample_weight_kappa0:
  "sample_weight 0 ((z, u) # rest)
     = (if u = 0 \<or> ln u \<le> 0 then Some (1 - 2 * z) else sample_weight 0 rest)"
proof -
  have b0: "2 / (sqrt (4 * 0 ^ 2 + 4) + 2 * 0) = (1::real)" by simp
  show ?thesis
    apply (simp only: sample_weight.simps Let_def b0)
    apply simp
    done
qed

lemma sample_weight_example: "sample_weight 0 [(1/2, 1/2)] = Some 0"
proof -
  have "ln (1 / 2 :: real) \<le> 0" by simp
  then show ?thesis by (simp only: sample_weight_kappa0) simp
qed

lemma sample_orthonormal_to_example:
  "sample_orthonormal_to [1, 0, 0] [0, 1, 0] = Some [0, 1, 0]"
  by (simp add: sample_orthonormal_to_def norm2_def dot_def vscale_def vsub_def)

lemma sample_one_example:
  "sample_one [1, 0, 0] 0 ([(1/2, 1/2)], [0, 1, 0]) = Returns [0, 1, 0]"
  by (simp add: sample_one_def sample_weight_example sample_orthonormal_to_example
      vadd_def vscale_def)

theorem fisher_sample_unit_norm_witness:
  "squeeze_dim1 (Tensor3 [[[1, 0, 0]]]) = Inr (Tensor2 [[1, 0, 0]])
   \<and> squeeze_dim1 (Tensor2 [[0]]) = Inr (Tensor1 [0])
   \<and> norm2 [1, 0, 0] = 1
   \<and> FisherVonMises_sample_tracking_direction_prob fvm_head
        (Tuple2 (Tensor3 [[[1, 0, 0]]]) (Tensor2 [[0]])) [([(1/2, 1/2)], [0, 1, 0])]
      = Returns (Tensor2 [[0, 1, 0]])
   \<and> norm2 [0, 1, 0] = 1"
proof -
  have m: "squeeze_dim1 (Tensor3 [[[1, 0, 0]]]) = Inr (Tensor2 [[1, 0, 0]])"
    by (simp add: squeeze_dim1_def)
  have k: "squeeze_dim1 (Tensor2 [[0]]) = Inr (Tensor1 [0])"
    by (simp add: squeeze_dim1_def)
  have n: "norm2 [1, 0, 0] = 1" by (simp add: norm2_def)
  have r: "FisherVonMises_sample_tracking_direction_prob fvm_head
        (Tuple2 (Tensor3 [[[1, 0, 0]]]) (Tensor2 [[0]])) [([(1/2, 1/2)], [0, 1, 0])]
      = Returns (Tensor2 [[0, 1, 0]])"
    by (simp add: FisherVonMises_sample_tracking_direction_prob_def unpack2_def shape0_def
        squeeze_dim1_def sample_one_example assign_row_def)
  have l: "length [0 :: real] = length [[1, 0, 0 :: real]]" by simp
  have h4: "\<forall>mu \<in> set [[1, 0, 0 :: real]]. length mu = 3 \<and> norm2 mu = 1"
    using n by simp
  have h5: "\<forall>r \<in> set [([(1/2, 1/2)], [0, 1, 0 :: real])].
      (\<forall>(z, u) \<in> set (fst r). 0 \<le> z \<and> z \<le> (1::real)) \<and> length (snd r) = 3"
    by simp
  from fisher_sample_unit_norm [OF m k l h4 h5, of fvm_head]
  have "\<forall>out.
      FisherVonMises_sample_tracking_direction_prob fvm_head
        (Tuple2 (Tensor3 [[[1, 0, 0]]]) (Tensor2 [[0]])) [([(1/2, 1/2)], [0, 1, 0])]
        = Returns out \<longrightarrow>
      (\<exists>dirs. out = Tensor2 dirs \<and> length dirs = length [[1, 0, 0 :: real]]
         \<and> (\<forall>d \<in> set dirs. length d = 3 \<and> norm2 d = 1))"
    by (rule conjunct1)
  with r obtain dirs where
    "Tensor2 [[0, 1, 0]] = Tensor2 dirs" "\<forall>d \<in> set dirs. length d = 3 \<and> norm2 d = 1"
    by blast
  then have "norm2 [0, 1, 0] = 1" by auto
  with m k n r show ?thesis by blast
qed

text \<open>
  The sampler does return under these hypotheses, as soon as each sample's draws hold a
  pair that is accepted and a normal vector that is not parallel to the mean.
\<close>

lemma sample_rows_returns:
  assumes "length kappas = length mus" "length rs = length mus"
      and "\<forall>mu \<in> set mus. length mu = 3 \<and> norm2 mu = 1"
      and "\<forall>r \<in> set rs. (\<forall>(z, u) \<in> set (fst r). 0 \<le> z \<and> z \<le> 1) \<and> length (snd r) = 3"
      and "\<forall>i < length mus. sample_weight (kappas ! i) (fst (rs ! i)) \<noteq> None
             \<and> sample_orthonormal_to (mus ! i) (snd (rs ! i)) \<noteq> None"
  shows "\<exists>rows. sample_rows mus kappas rs = Returns rows"
  using assms
proof (induction mus kappas rs rule: sample_rows.induct)
  case (1 kappas rs)
  then show ?case by simp
next
  case (2 mu mus rs)
  then show ?case by simp
next
  case (3 mu mus kappa kappas)
  then show ?case by simp
next
  case (4 mu mus kappa kappas r rs)
  from "4.prems"(5) have "sample_weight kappa (fst r) \<noteq> None
      \<and> sample_orthonormal_to mu (snd r) \<noteq> None"
    by fastforce
  then obtain w v where w: "sample_weight kappa (fst r) = Some w"
    and v: "sample_orthonormal_to mu (snd r) = Some v"
    by auto
  have mu: "length mu = 3" "norm2 mu = 1" using "4.prems"(3) by simp_all
  have r: "\<forall>(z, u) \<in> set (fst r). 0 \<le> z \<and> z \<le> 1" "length (snd r) = length mu"
    using "4.prems"(4) mu(1) by simp_all
  from sample_weight_bounds [OF w r(1)] have "\<bar>w\<bar> \<le> 1" by (simp add: abs_le_iff)
  then have "w ^ 2 \<le> 1" by (simp only: abs_square_le_1)
  then have nn: "\<not> 1 - w ^ 2 < 0" by simp
  let ?d = "vadd (vscale (sqrt (1 - w ^ 2)) v) (vscale w mu)"
  have d: "sample_one mu kappa r = Returns ?d"
    using nn by (simp add: sample_one_def w v)
  from sample_one_unit [OF d mu(2) r(2) r(1)] mu(1) have "length ?d = 3" by simp
  then have row: "assign_row ?d = Inr ?d" by (rule assign_row_3)
  have "\<forall>i < length mus. sample_weight (kappas ! i) (fst (rs ! i)) \<noteq> None
             \<and> sample_orthonormal_to (mus ! i) (snd (rs ! i)) \<noteq> None"
  proof (intro allI impI)
    fix i assume "i < length mus"
    then have "Suc i < length (mu # mus)" by simp
    with "4.prems"(5) show "sample_weight (kappas ! i) (fst (rs ! i)) \<noteq> None
             \<and> sample_orthonormal_to (mus ! i) (snd (rs ! i)) \<noteq> None"
      by fastforce
  qed
  with "4.IH" [OF d row] "4.prems"(1,2,3,4)
  obtain rows where "sample_rows mus kappas rs = Returns rows" by auto
  then show ?case by (simp add: d row)
qed

section \<open>Properties of the transformer model\<close>

lemma fold_max_ge_init: "(a::nat) \<le> fold max xs a"
proof (induction xs arbitrary: a)
  case Nil
  show ?case by simp
next
  case (Cons x xs)
  have "a \<le> max x a" by simp
  also have "\<dots> \<le> fold max xs (max x a)" by (rule Cons.IH)
  finally show ?case by simp
qed

lemma fold_max_ge_elem: "x \<in> set xs \<Longrightarrow> (x::nat) \<le> fold max xs a"
proof (induction xs arbitrary: a)
  case Nil
  then show ?case by simp
next
  case (Cons y ys)
  show ?case
  proof (cases "x = y")
    case True
    have "x \<le> max y a" using True by simp
    also have "\<dots> \<le> fold max ys (max y a)" by (rule fold_max_ge_init)
    finally show ?thesis by simp
  next
    case False
    with Cons.prems have "x \<in> set ys" by simp
    then show ?thesis using Cons.IH by simp
  qed
qed

lemma take_forward_padding:
  "length (points d) \<le> n \<Longrightarrow>
   take (length (points d)) (points (forward_padding d n)) = points d"
  by (simp add: forward_padding_def)

lemma nb_features_forward_padding: "nb_features (forward_padding d n) = nb_features d"
  by (simp add: forward_padding_def)

lemma stack_Inr: "stack data = Inr out \<Longrightarrow> out = data"
  by (auto simp: stack_def split: list.splits if_splits)

lemma pad_never_truncates:
  assumes "pad_and_stack_batch inputs use_padding
             (fold max (map (\<lambda>i. length (points i)) inputs) 0) = Inr padded"
  shows "length padded = length inputs \<and>
         (\<forall>i < length inputs.
            nb_features (padded ! i) = nb_features (inputs ! i)
          \<and> take (length (points (inputs ! i))) (points (padded ! i)) = points (inputs ! i))"
proof (cases use_padding)
  case False
  with assms have "padded = inputs"
    by (auto simp: pad_and_stack_batch_def dest: stack_Inr)
  then show ?thesis by simp
next
  case True
  let ?n = "fold max (map (\<lambda>i. length (points i)) inputs) 0"
  from True assms have p: "padded = map (\<lambda>d. forward_padding d ?n) inputs"
    by (auto simp: pad_and_stack_batch_def dest: stack_Inr)
  have "nb_features (padded ! i) = nb_features (inputs ! i)
      \<and> take (length (points (inputs ! i))) (points (padded ! i)) = points (inputs ! i)"
    if "i < length inputs" for i
  proof -
    have "length (points (inputs ! i)) \<in> set (map (\<lambda>i. length (points i)) inputs)"
      using that by simp
    then have "length (points (inputs ! i)) \<le> ?n" by (rule fold_max_ge_elem)
    then show ?thesis
      using that by (simp add: p take_forward_padding nb_features_forward_padding)
  qed
  then show ?thesis by (simp add: p)
qed

text \<open>
  A sequence of no point is padded with rows of zeros of its number of features, and the
  batch is stacked.
\<close>

lemma pad_sequence_of_no_point:
  "pad_and_stack_batch
     [\<lparr>points = [], nb_features = 2\<rparr>, \<lparr>points = [[1, 2]], nb_features = 2\<rparr>] True 1
   = Inr [\<lparr>points = [[0, 0]], nb_features = 2\<rparr>, \<lparr>points = [[1, 2]], nb_features = 2\<rparr>]"
  by (simp add: pad_and_stack_batch_def stack_def forward_padding_def numeral_2_eq_2)

lemma format_nat_digit: "n < 10 \<Longrightarrow> format_nat n = [''0123456789'' ! n]"
  by (simp add: format_nat.simps)

lemma format_nat_2: "format_nat 2 = ''2''"
  by (simp add: format_nat_digit)

text \<open>
  C8. When some input sequence is longer than \<open>max_len\<close>, \<open>forward\<close> raises one of
  the errors of its three checks (the context is not set, the inputs and the streamlines
  differ in length, some sequence is too long), whatever the later stages would do: no
  stage runs before the error. And when \<open>forward\<close> returns, no sequence was longer than
  \<open>max_len\<close>, the embedding received a batch in which every input sequence stands in
  full (followed by its padding), and the later stages received the true lengths: nothing
  is truncated.
\<close>

theorem forward_rejects_long_sequences:
  "((\<exists>i \<in> set inputs. max_len self < length (points i)) \<longrightarrow>
      AbstractTransformerModel_forward self prepare_targets embed_x embed_t main_layers
          inputs input_streamlines
        \<in> {Inl (ValueError ''Please set context before usage.''),
            Inl AssertionError,
            Inl (ValueError
              (''Some streamlines were longer than accepted max length for sequences (''
               @ format_nat (max_len self) @ '')''))})
   \<and> (\<forall>out.
        AbstractTransformerModel_forward self prepare_targets embed_x embed_t main_layers
          inputs input_streamlines = Inr out \<longrightarrow>
        (\<forall>i \<in> set inputs. length (points i) \<le> max_len self)
        \<and> (\<exists>padded x t.
              embed_x padded = Inr x
            \<and> main_layers x t (map (\<lambda>i. length (points i)) inputs) = Inr out
            \<and> length padded = length inputs
            \<and> (\<forall>i < length inputs.
                  nb_features (padded ! i) = nb_features (inputs ! i)
                \<and> take (length (points (inputs ! i))) (points (padded ! i))
                    = points (inputs ! i))))"
proof (intro conjI impI allI)
  assume "\<exists>i \<in> set inputs. max_len self < length (points i)"
  then have "list_ex (\<lambda>l. max_len self < l) (map (\<lambda>i. length (points i)) inputs)"
    by (auto simp: list_ex_iff)
  then show "AbstractTransformerModel_forward self prepare_targets embed_x embed_t main_layers
          inputs input_streamlines
        \<in> {Inl (ValueError ''Please set context before usage.''),
            Inl AssertionError,
            Inl (ValueError
              (''Some streamlines were longer than accepted max length for sequences (''
               @ format_nat (max_len self) @ '')''))}"
    by (simp add: AbstractTransformerModel_forward_def Let_def)
next
  fix out
  assume r: "AbstractTransformerModel_forward self prepare_targets embed_x embed_t main_layers
          inputs input_streamlines = Inr out"
  then have "\<not> list_ex (\<lambda>l. max_len self < l) (map (\<lambda>i. length (points i)) inputs)"
    by (auto simp: AbstractTransformerModel_forward_def Let_def split: if_splits)
  then show "\<forall>i \<in> set inputs. length (points i) \<le> max_len self"
    by (auto simp: list_ex_iff not_less)
  from r obtain use_padding padded x t where
    "pad_and_stack_batch inputs use_padding
       (fold max (map (\<lambda>i. length (points i)) inputs) 0) = Inr padded"
    "embed_x padded = Inr x"
    "main_layers x t (map (\<lambda>i. length (points i)) inputs) = Inr out"
    by (auto simp: AbstractTransformerModel_forward_def Let_def
        split: if_splits list.splits sum.splits)
  then show "\<exists>padded x t.
              embed_x padded = Inr x
            \<and> main_layers x t (map (\<lambda>i. length (points i)) inputs) = Inr out
            \<and> length padded = length inputs
            \<and> (\<forall>i < length inputs.
                  nb_features (padded ! i) = nb_features (inputs ! i)
                \<and> take (length (points (inputs ! i))) (points (padded ! i))
                    = points (inputs ! i))"
    using pad_never_truncates by blast
qed

theorem forward_rejects_long_sequences_witness:
  "(\<exists>i \<in> set [\<lparr>points = [[1], [2], [3]], nb_features = 1\<rparr>].
      max_len short_model < length (points i))
   \<and> AbstractTransformerModel_forward short_model identity_stage identity_stage identity_stage
        return_inputs [\<lparr>points = [[1], [2], [3]], nb_features = 1\<rparr>]
        [\<lparr>points = [[0, 0, 0], [1, 0, 0], [2, 0, 0]], nb_features = 3\<rparr>]
      = Inl (ValueError
              ''Some streamlines were longer than accepted max length for sequences (2)'')
   \<and> AbstractTransformerModel_forward short_model identity_stage identity_stage identity_stage
        return_inputs
        [\<lparr>points = [[1], [2]], nb_features = 1\<rparr>, \<lparr>points = [[3]], nb_features = 1\<rparr>]
        [\<lparr>points = [[0, 0, 0], [1, 0, 0]], nb_features = 3\<rparr>,
         \<lparr>points = [[0, 0, 0]], nb_features = 3\<rparr>]
      = Inr [\<lparr>points = [[1], [2]], nb_features = 1\<rparr>,
             \<lparr>points = [[3], [0]], nb_features = 1\<rparr>]
   \<and> list_all (\<lambda>i. length (points i) \<le> max_len short_model)
        [\<lparr>points = [[1], [2]], nb_features = 1\<rparr>, \<lparr>points = [[3::real]], nb_features = 1\<rparr>]"
proof -
  let ?long = "[\<lparr>points = [[1::real], [2], [3]], nb_features = 1\<rparr>]"
  let ?long_s = "[\<lparr>points = [[0::real, 0, 0], [1, 0, 0], [2, 0, 0]], nb_features = 3\<rparr>]"
  let ?ok = "[\<lparr>points = [[1::real], [2]], nb_features = 1\<rparr>,
              \<lparr>points = [[3]], nb_features = 1\<rparr>]"
  let ?ok_s = "[\<lparr>points = [[0::real, 0, 0], [1, 0, 0]], nb_features = 3\<rparr>,
                \<lparr>points = [[0, 0, 0]], nb_features = 3\<rparr>]"
  have d: "\<exists>i \<in> set ?long. max_len short_model < length (points i)"
    by (simp add: short_model_def)
  with forward_rejects_long_sequences [of ?long short_model identity_stage
      identity_stage identity_stage return_inputs ?long_s]
  have "AbstractTransformerModel_forward short_model identity_stage identity_stage
        identity_stage return_inputs ?long ?long_s
      \<in> {Inl (ValueError ''Please set context before usage.''),
          Inl AssertionError,
          Inl (ValueError
            (''Some streamlines were longer than accepted max length for sequences (''
             @ format_nat (max_len short_model) @ '')''))}"
    by blast
  then have a: "AbstractTransformerModel_forward short_model identity_stage identity_stage
        identity_stage return_inputs ?long ?long_s
      = Inl (ValueError
              ''Some streamlines were longer than accepted max length for sequences (2)'')"
    by (simp add: AbstractTransformerModel_forward_def short_model_def format_nat_2)
  have b: "AbstractTransformerModel_forward short_model identity_stage identity_stage
        identity_stage return_inputs ?ok ?ok_s
      = Inr [\<lparr>points = [[1], [2]], nb_features = 1\<rparr>,
             \<lparr>points = [[3], [0]], nb_features = 1\<rparr>]"
    by (simp add: AbstractTransformerModel_forward_def short_model_def identity_stage_def
        return_inputs_def pad_and_stack_batch_def stack_def forward_padding_def)
  from forward_rejects_long_sequences [of ?ok short_model identity_stage
      identity_stage identity_stage return_inputs ?ok_s] b
  have "\<forall>i \<in> set ?ok. length (points i) \<le> max_len short_model"
    by blast
  then have c: "list_all (\<lambda>i. length (points i) \<le> max_len short_model) ?ok"
    by (simp only: list_all_iff)
  from a b c d show ?thesis by blast
qed
section \<open>Properties of the trainer\<close>

subsection \<open>Restoring the monitors from a checkpoint\<close>

text \<open>
  C3 (the code departs from the claim). The checkpoint below holds a saved state for the
  invalid-streamline-ratio monitor (epoch 2, averages 10, 20, 30), as
  \<open>_prepare_checkpoint_info\<close> stores it. After \<open>_update_states_from_checkpoint\<close> the
  loss monitor holds its saved state, and the invalid-streamline-ratio monitor holds 150
  zeros at epoch 149: its saved state is present and is not restored.
\<close>

theorem IS_monitor_state_not_restored:
  "saved_states ''tracking_valid_IS_monitor_state''
     = Some \<lparr>current_epoch = 2, average_per_epoch = [10, 20, 30]\<rparr>
   \<and> update_states_from_checkpoint keep_trainer install_state fresh_trainer saved_states
     = Inr \<lparr>tracking_phase_nb_steps_init = 5,
            tracking_valid_loss_monitor = \<lparr>current_epoch = 2, average_per_epoch = [3, 2, 1]\<rparr>,
            tracking_valid_IS_monitor =
              \<lparr>current_epoch = 149, average_per_epoch = replicate 150 0\<rparr>\<rparr>"
  by (simp add: update_states_from_checkpoint_def keep_trainer_def install_state_def
      fresh_trainer_def saved_states_def fresh_monitor_def)

text \<open>
  Whatever the checkpoint holds, and whatever the parent class and \<open>set_state\<close> do, a
  restoration that returns leaves the padded history in the monitor.
\<close>

lemma IS_monitor_always_padded:
  "update_states_from_checkpoint super_update set_state self states = Inr self' \<Longrightarrow>
   current_epoch (tracking_valid_IS_monitor self') = 149 \<and>
   average_per_epoch (tracking_valid_IS_monitor self') = replicate 150 0"
  by (auto simp: update_states_from_checkpoint_def Let_def split: sum.splits option.splits)

subsection \<open>Scoring one generated batch\<close>

text \<open>
  The distance module returns, for each pair of final points, the norm of their difference
  shifted by its constant \<open>eps\<close>; with \<open>eps = 0\<close> this is the Euclidean distance.
\<close>

lemma pairwise_row_norm:
  "length x1 = length x2 \<Longrightarrow> pairwise_row eps x1 x2 = Inr (pairwise_norm eps x1 x2)"
  by (simp add: pairwise_row_def broadcast2_def pairwise_norm_def)

lemma pairwise_norm_0: "pairwise_norm 0 p q = euclidean_distance p q"
  by (simp add: pairwise_norm_def euclidean_distance_def)

lemma last_points:
  "\<forall>l \<in> set lines. l \<noteq> [] \<Longrightarrow> map_err last_point lines = Inr (map last lines)"
  by (rule map_err_Inr) (simp add: last_point_def)

lemma PairwiseDistance_rows:
  assumes "length qs = length ps" "\<forall>q \<in> set qs. length q = 3" "\<forall>p \<in> set ps. length p = 3"
  shows "PairwiseDistance eps qs ps = Inr (map (\<lambda>(a, b). pairwise_norm eps a b) (zip qs ps))"
proof -
  have "map_err (\<lambda>(a, b). pairwise_row eps a b) (zip qs ps)
      = Inr (map (\<lambda>(a, b). pairwise_norm eps a b) (zip qs ps))"
  proof (rule map_err_Inr)
    fix x assume x: "x \<in> set (zip qs ps)"
    obtain a b where ab: "x = (a, b)" by (cases x)
    from x ab have "a \<in> set qs" "b \<in> set ps" by (auto dest: set_zip_leftD set_zip_rightD)
    with assms(2,3) have "length a = length b" by simp
    then show "(case x of (a, b) \<Rightarrow> pairwise_row eps a b)
        = Inr (case x of (a, b) \<Rightarrow> pairwise_norm eps a b)"
      by (simp add: ab pairwise_row_norm)
  qed
  then show ?thesis by (simp add: PairwiseDistance_def broadcast2_def assms(1))
qed

lemma count_invalid:
  "length (filter (\<lambda>l. T < l) (map (\<lambda>(a, b). f a b) (zip (map last gs) (map last ts))))
   = length (filter (\<lambda>(g, t). T < f (last g) (last t)) (zip gs ts))"
proof (induction gs arbitrary: ts)
  case Nil
  then show ?case by simp
next
  case (Cons g gs)
  then show ?case by (cases ts) simp_all
qed

lemma shifted_squares_lower:
  assumes "0 \<le> e"
  shows "(1 - e) * (\<Sum>(a, b)\<leftarrow>zip p q. (a - b) ^ 2) - e * real (length (zip p q))
         \<le> (\<Sum>(a, b)\<leftarrow>zip p q. (a - b + e) ^ 2)"
proof (induction p arbitrary: q)
  case Nil
  then show ?case by simp
next
  case (Cons a p)
  show ?case
  proof (cases q)
    case Nil
    then show ?thesis by simp
  next
    case (Cons b q')
    have one: "(1 - e) * (a - b) ^ 2 - e \<le> (a - b + e) ^ 2"
    proof -
      have "(a - b + e) ^ 2 - ((1 - e) * (a - b) ^ 2 - e) = e * (a - b + 1) ^ 2 + e ^ 2"
        by (simp add: power2_eq_square algebra_simps)
      moreover have "0 \<le> e * (a - b + 1) ^ 2 + e ^ 2" using assms by simp
      ultimately show ?thesis by linarith
    qed
    from Cons.IH [of q'] one show ?thesis
      unfolding Cons by (simp add: algebra_simps)
  qed
qed

lemma shifted_squares_upper:
  assumes "0 \<le> e"
  shows "(\<Sum>(a, b)\<leftarrow>zip p q. (a - b + e) ^ 2)
         \<le> (1 + e) * (\<Sum>(a, b)\<leftarrow>zip p q. (a - b) ^ 2) + (e + e ^ 2) * real (length (zip p q))"
proof (induction p arbitrary: q)
  case Nil
  then show ?case by simp
next
  case (Cons a p)
  show ?case
  proof (cases q)
    case Nil
    then show ?thesis by simp
  next
    case (Cons b q')
    have one: "(a - b + e) ^ 2 \<le> (1 + e) * (a - b) ^ 2 + (e + e ^ 2)"
    proof -
      have "(1 + e) * (a - b) ^ 2 + (e + e ^ 2) - (a - b + e) ^ 2 = e * (a - b - 1) ^ 2"
        by (simp add: power2_eq_square algebra_simps)
      moreover have "0 \<le> e * (a - b - 1) ^ 2" using assms by simp
      ultimately show ?thesis by linarith
    qed
    from Cons.IH [of q'] one show ?thesis
      unfolding Cons by (simp add: algebra_simps)
  qed
qed

lemma near_point_valid:
  assumes "0 \<le> eps" "eps \<le> 1 / 10 ^ 6" "length p = 3" "length q = 3"
      and "euclidean_distance p q \<le> 259799 / 10000"
  shows "pairwise_norm eps p q \<le> IS_THRESHOLD"
proof -
  let ?S = "\<Sum>(a, b)\<leftarrow>zip p q. (a - b) ^ 2"
  let ?c = "259799 / 10000 :: real"
  from assms(5) have "sqrt ?S \<le> ?c" by (simp add: euclidean_distance_def)
  then have S: "?S \<le> ?c ^ 2" by (rule sqrt_le_D)
  have len: "real (length (zip p q)) = 3" using assms(3,4) by simp
  have e1: "0 \<le> 1 + eps" using assms(1) by simp
  have "eps * eps \<le> eps * 1" using assms(1,2) by (intro mult_left_mono) simp_all
  then have e2: "eps ^ 2 \<le> eps" by (simp add: power2_eq_square)
  have m: "(1 + eps) * ?S \<le> (1 + eps) * ?c ^ 2" using S e1 by (rule mult_left_mono)
  have e3: "(eps + eps ^ 2) * 3 \<le> (eps + eps) * 3" using e2 by simp
  have "(\<Sum>(a, b)\<leftarrow>zip p q. (a - b + eps) ^ 2) \<le> (1 + eps) * ?S + (eps + eps ^ 2) * 3"
    using shifted_squares_upper [OF assms(1), of p q] len by simp
  also have "\<dots> \<le> (1 + eps) * ?c ^ 2 + (eps + eps) * 3"
    using m e3 by (rule add_mono)
  also have "\<dots> \<le> IS_THRESHOLD ^ 2"
    using assms(1,2)
    apply (simp add: IS_THRESHOLD_def power2_eq_square)
    apply (simp add: field_simps)
    done
  finally have "(\<Sum>(a, b)\<leftarrow>zip p q. (a - b + eps) ^ 2) \<le> IS_THRESHOLD ^ 2" .
  moreover have "0 \<le> IS_THRESHOLD" by (simp add: IS_THRESHOLD_def)
  ultimately have "sqrt (\<Sum>(a, b)\<leftarrow>zip p q. (a - b + eps) ^ 2) \<le> IS_THRESHOLD"
    by (intro real_le_lsqrt)
  then show ?thesis by (simp add: pairwise_norm_def)
qed

lemma beyond_point_invalid:
  assumes "0 \<le> eps" "eps \<le> 1 / 10 ^ 6" "length p = 3" "length q = 3"
      and "259801 / 10000 \<le> euclidean_distance p q"
  shows "IS_THRESHOLD < pairwise_norm eps p q"
proof -
  let ?S = "\<Sum>(a, b)\<leftarrow>zip p q. (a - b) ^ 2"
  let ?c = "259801 / 10000 :: real"
  have S0: "0 \<le> ?S" by (rule sum_list_nonneg) auto
  from assms(5) have "?c \<le> sqrt ?S" by (simp add: euclidean_distance_def)
  then have "?c ^ 2 \<le> (sqrt ?S) ^ 2" by (intro power_mono) simp_all
  then have S: "?c ^ 2 \<le> ?S" using S0 by simp
  have len: "real (length (zip p q)) = 3" using assms(3,4) by simp
  have e1: "0 \<le> 1 - eps" using assms(2) by simp
  have m: "(1 - eps) * ?c ^ 2 \<le> (1 - eps) * ?S" using S e1 by (rule mult_left_mono)
  have "IS_THRESHOLD ^ 2 < (1 - eps) * ?c ^ 2 - eps * 3"
    using assms(1,2)
    apply (simp add: IS_THRESHOLD_def power2_eq_square)
    apply (simp add: field_simps)
    done
  also have "\<dots> \<le> (1 - eps) * ?S - eps * 3"
    using m by (rule diff_right_mono)
  also have "\<dots> \<le> (\<Sum>(a, b)\<leftarrow>zip p q. (a - b + eps) ^ 2)"
    using shifted_squares_lower [OF assms(1), of p q] len by simp
  finally have "IS_THRESHOLD ^ 2 < (\<Sum>(a, b)\<leftarrow>zip p q. (a - b + eps) ^ 2)" .
  then have "IS_THRESHOLD < sqrt (\<Sum>(a, b)\<leftarrow>zip p q. (a - b + eps) ^ 2)"
    by (rule real_less_rsqrt)
  then show ?thesis by (simp add: pairwise_norm_def)
qed

lemma euclidean_distance_same: "euclidean_distance p p = 0"
  by (simp add: euclidean_distance_def zip_same_conv_map o_def)

text \<open>
  For a batch of one line the result is the distance of the module between the two final
  points, one line, and 100 or 0 as this distance exceeds \<open>IS_THRESHOLD\<close> or not.
\<close>

lemma generate_single:
  assumes "propagate_multiple_lines
             [take (min (length t) (tracking_phase_nb_steps_init self)) t] = Inr [g]"
      and "t \<noteq> []" "g \<noteq> []" "length (last t) = 3" "length (last g) = 3"
  shows "generate_from_one_batch eps propagate_multiple_lines self [t]
         = Inr (pairwise_norm eps (last g) (last t), 1,
                if IS_THRESHOLD < pairwise_norm eps (last g) (last t) then 100 else 0)"
proof -
  have lp: "map_err last_point [t] = Inr [last t]"
    using last_points [of "[t]"] assms(2) by simp
  have lq: "map_err last_point [g] = Inr [last g]"
    using last_points [of "[g]"] assms(3) by simp
  have vp: "vstack [last t] = Inr [last t]" by (simp add: vstack_def)
  have vq: "vstack [last g] = Inr [last g]" by (simp add: vstack_def)
  have pd: "PairwiseDistance eps [last g] [last t] = Inr [pairwise_norm eps (last g) (last t)]"
    using PairwiseDistance_rows [of "[last g]" "[last t]" eps] assms(4,5) by simp
  have p: "propagate_multiple_lines
             (map (\<lambda>s. take (min (length s) (tracking_phase_nb_steps_init self)) s) [t])
           = Inr [g]"
    using assms(1) by simp
  show ?thesis
    unfolding generate_from_one_batch_def lp vp p lq vq pd sum.case
    by simp
qed

text \<open>
  C4 (as amended). When the propagation returns one line per ground-truth line, all of
  them non-empty with final points in three dimensions, \<open>generate_from_one_batch\<close>
  returns, with the mean loss and the number of lines, the percentage of the lines for
  which the distance of the distance module between the generated and the ground-truth
  final point exceeds \<open>IS_THRESHOLD\<close>. That distance is the norm of the difference of the
  two points with the module's constant \<open>eps\<close> added to every component, \<open>eps\<close> between
  0 and 1e-6 (the module's default): it is the Euclidean distance for \<open>eps = 0\<close> only.
  For every such \<open>eps\<close> a line is counted when its Euclidean distance is at least 25.9801
  and is not counted when it is at most 25.9799. Hence a batch of one line with the same
  final point as the ground truth has a ratio of 0, and a batch of one line whose final
  point is at a Euclidean distance of at least 25.9801 has a ratio of 100.
\<close>

theorem IS_ratio_scoring:
  assumes "0 \<le> eps" "eps \<le> 1 / 10 ^ 6"
      and "propagate_multiple_lines
             (map (\<lambda>s. take (min (length s) (tracking_phase_nb_steps_init self)) s) lines)
           = Inr generated"
      and "lines \<noteq> []" "length generated = length lines"
      and "\<forall>l \<in> set lines. l \<noteq> [] \<and> length (last l) = 3"
      and "\<forall>g \<in> set generated. g \<noteq> [] \<and> length (last g) = 3"
  shows "\<exists>mean_loss ratio.
           generate_from_one_batch eps propagate_multiple_lines self lines
             = Inr (mean_loss, length lines, ratio)
         \<and> ratio = real (length (filter
                      (\<lambda>(g, t). IS_THRESHOLD < pairwise_norm eps (last g) (last t))
                      (zip generated lines))) / real (length lines) * 100
         \<and> (eps = 0 \<longrightarrow>
              ratio = real (length (filter
                        (\<lambda>(g, t). IS_THRESHOLD < euclidean_distance (last g) (last t))
                        (zip generated lines))) / real (length lines) * 100)
         \<and> (\<forall>g t. (g, t) \<in> set (zip generated lines) \<longrightarrow>
              (euclidean_distance (last g) (last t) \<le> 259799 / 10000 \<longrightarrow>
                 \<not> IS_THRESHOLD < pairwise_norm eps (last g) (last t))
              \<and> (259801 / 10000 \<le> euclidean_distance (last g) (last t) \<longrightarrow>
                 IS_THRESHOLD < pairwise_norm eps (last g) (last t)))
         \<and> (\<forall>g t. generated = [g] \<and> lines = [t] \<longrightarrow>
              (last g = last t \<longrightarrow> ratio = 0)
              \<and> (259801 / 10000 \<le> euclidean_distance (last g) (last t) \<longrightarrow> ratio = 100))"
proof -
  let ?ps = "map last lines"
  let ?qs = "map last generated"
  let ?loss = "map (\<lambda>(a, b). pairwise_norm eps a b) (zip ?qs ?ps)"
  let ?count = "\<lambda>d. length (filter (\<lambda>(g, t). IS_THRESHOLD < d (last g) (last t))
                   (zip generated lines))"
  let ?ratio = "real (?count (pairwise_norm eps)) / real (length lines) * 100"
  have gne: "generated \<noteq> []" using assms(4,5) by auto
  have lp: "map_err last_point lines = Inr ?ps"
    by (rule last_points) (use assms(6) in simp)
  have lq: "map_err last_point generated = Inr ?qs"
    by (rule last_points) (use assms(7) in simp)
  have vp: "vstack ?ps = Inr ?ps" using assms(4) by (simp add: vstack_def)
  have vq: "vstack ?qs = Inr ?qs" using gne by (simp add: vstack_def)
  have pd: "PairwiseDistance eps ?qs ?ps = Inr ?loss"
    by (rule PairwiseDistance_rows) (use assms(5,6,7) in simp_all)
  have cnt: "length (filter (\<lambda>l. IS_THRESHOLD < l) ?loss) = ?count (pairwise_norm eps)"
    by (rule count_invalid)
  have res: "generate_from_one_batch eps propagate_multiple_lines self lines
             = Inr (sum_list ?loss / real (length ?loss), length lines, ?ratio)"
    unfolding generate_from_one_batch_def lp vp assms(3) lq vq pd sum.case cnt assms(5)
    by (rule refl)
  have zero: "?ratio = real (?count euclidean_distance) / real (length lines) * 100"
    if "eps = 0"
    using that by (simp add: pairwise_norm_0)
  have near: "(euclidean_distance (last g) (last t) \<le> 259799 / 10000 \<longrightarrow>
                 \<not> IS_THRESHOLD < pairwise_norm eps (last g) (last t))
              \<and> (259801 / 10000 \<le> euclidean_distance (last g) (last t) \<longrightarrow>
                 IS_THRESHOLD < pairwise_norm eps (last g) (last t))"
    if gt: "(g, t) \<in> set (zip generated lines)" for g t
  proof -
    from gt have "g \<in> set generated" "t \<in> set lines"
      by (auto dest: set_zip_leftD set_zip_rightD)
    with assms(6,7) have l3: "length (last g) = 3" "length (last t) = 3" by simp_all
    show ?thesis
      using near_point_valid [OF assms(1,2) l3] beyond_point_invalid [OF assms(1,2) l3]
      by (simp add: not_less)
  qed
  have single: "(last g = last t \<longrightarrow> ?ratio = 0)
              \<and> (259801 / 10000 \<le> euclidean_distance (last g) (last t) \<longrightarrow> ?ratio = 100)"
    if gt: "generated = [g] \<and> lines = [t]" for g t
  proof (intro conjI impI)
    from gt have z: "(g, t) \<in> set (zip generated lines)" by simp
    {
      assume "last g = last t"
      then have "euclidean_distance (last g) (last t) \<le> 259799 / 10000"
        by (simp add: euclidean_distance_same)
      with near [OF z] have "\<not> IS_THRESHOLD < pairwise_norm eps (last g) (last t)" by blast
      then show "?ratio = 0" using gt by simp
    }
    {
      assume "259801 / 10000 \<le> euclidean_distance (last g) (last t)"
      with near [OF z] have "IS_THRESHOLD < pairwise_norm eps (last g) (last t)" by blast
      then show "?ratio = 100" using gt by simp
    }
  qed
  show ?thesis
    apply (rule exI [of _ "sum_list ?loss / real (length ?loss)"])
    apply (rule exI [of _ ?ratio])
    apply (intro conjI)
        apply (rule res)
       apply (rule refl)
      apply (rule impI)
      apply (erule zero)
     apply (intro allI impI)
     apply (erule near)
    apply (intro allI impI)
    apply (erule single)
    done
qed

theorem IS_ratio_scoring_witness:
  "(\<exists>m. generate_from_one_batch (1 / 10 ^ 6) identity_stage fresh_trainer
          [[[0, 0, 0], [1, 0, 0]]] = Inr (m, 1, 0))
   \<and> (\<exists>m. generate_from_one_batch (1 / 10 ^ 6) far_propagation fresh_trainer
          [[[0, 0, 0], [1, 0, 0]]] = Inr (m, 1, 100))
   \<and> 259801 / 10000 \<le> euclidean_distance [100, 0, 0] [1, 0, 0]"
proof -
  let ?lines = "[[[0, 0, 0], [1, 0, 0 :: real]]]"
  let ?far = "[[[0, 0, 0], [100, 0, 0 :: real]]]"
  have e: "(0::real) \<le> 1 / 10 ^ 6" "(1::real) / 10 ^ 6 \<le> 1 / 10 ^ 6" by simp_all
  have ne: "?lines \<noteq> []" by simp
  have l: "\<forall>l \<in> set ?lines. l \<noteq> [] \<and> length (last l) = 3" by simp
  have f: "\<forall>l \<in> set ?far. l \<noteq> [] \<and> length (last l) = 3" by simp
  have p1: "identity_stage
      (map (\<lambda>s. take (min (length s) (tracking_phase_nb_steps_init fresh_trainer)) s) ?lines)
      = Inr ?lines"
    by (simp add: identity_stage_def fresh_trainer_def)
  have p2: "far_propagation
      (map (\<lambda>s. take (min (length s) (tracking_phase_nb_steps_init fresh_trainer)) s) ?lines)
      = Inr ?far"
    by (simp add: far_propagation_def)
  have far: "259801 / 10000 \<le> euclidean_distance [100, 0, 0] [1, 0, 0]"
  proof -
    have "euclidean_distance [100, 0, 0] [1, 0, 0] = sqrt (99 ^ 2)"
      by (simp add: euclidean_distance_def)
    also have "\<dots> = 99" by simp
    finally show ?thesis by simp
  qed
  have len: "length ?lines = length ?lines" "length ?far = length ?lines" by simp_all
  from IS_ratio_scoring [of "1 / 10 ^ 6" identity_stage fresh_trainer ?lines ?lines,
      OF e p1 ne len(1) l l] obtain m1 r1 where
    a1: "generate_from_one_batch (1 / 10 ^ 6) identity_stage fresh_trainer ?lines
          = Inr (m1, length ?lines, r1)"
    and b1: "\<forall>g t. ?lines = [g] \<and> ?lines = [t] \<longrightarrow>
              (last g = last t \<longrightarrow> r1 = 0)
              \<and> (259801 / 10000 \<le> euclidean_distance (last g) (last t) \<longrightarrow> r1 = 100)"
    by blast
  from b1 have "r1 = 0" by blast
  with a1 have w1: "\<exists>m. generate_from_one_batch (1 / 10 ^ 6) identity_stage fresh_trainer
          ?lines = Inr (m, 1, 0)"
    by simp
  from IS_ratio_scoring [of "1 / 10 ^ 6" far_propagation fresh_trainer ?lines ?far,
      OF e p2 ne len(2) l f] obtain m2 r2 where
    a2: "generate_from_one_batch (1 / 10 ^ 6) far_propagation fresh_trainer ?lines
          = Inr (m2, length ?lines, r2)"
    and b2: "\<forall>g t. ?far = [g] \<and> ?lines = [t] \<longrightarrow>
              (last g = last t \<longrightarrow> r2 = 0)
              \<and> (259801 / 10000 \<le> euclidean_distance (last g) (last t) \<longrightarrow> r2 = 100)"
    by blast
  from b2 far have "r2 = 100" by force
  with a2 have w2: "\<exists>m. generate_from_one_batch (1 / 10 ^ 6) far_propagation fresh_trainer
          ?lines = Inr (m, 1, 100)"
    by simp
  from w1 w2 far show ?thesis by blast
qed

text \<open>
  The claim as stated fails between 25.9799 and 25.9801 with the module's default
  \<open>eps\<close> of 1e-6. A line ending at (25.98, 0, 0), for a ground truth ending at the origin,
  is at a Euclidean distance equal to the threshold, which it does not exceed, and is
  counted: the ratio is 100. A line ending at the origin, for a ground truth ending at
  (25.9800001, 0, 0), is at a Euclidean distance above the threshold and is not counted:
  the ratio is 0.
\<close>

theorem boundary_distance_counterexample:
  "euclidean_distance [2598 / 100, 0, 0] [0, 0, 0] = IS_THRESHOLD
   \<and> generate_from_one_batch (1 / 10 ^ 6) boundary_propagation fresh_trainer [[[0, 0, 0]]]
     = Inr (pairwise_norm (1 / 10 ^ 6) [2598 / 100, 0, 0] [0, 0, 0], 1, 100)
   \<and> IS_THRESHOLD < euclidean_distance [0, 0, 0] [2598 / 100 + 1 / 10 ^ 7, 0, 0]
   \<and> generate_from_one_batch (1 / 10 ^ 6) origin_propagation fresh_trainer
        [[[2598 / 100 + 1 / 10 ^ 7, 0, 0]]]
     = Inr (pairwise_norm (1 / 10 ^ 6) [0, 0, 0] [2598 / 100 + 1 / 10 ^ 7, 0, 0], 1, 0)"
proof -
  have d1: "euclidean_distance [2598 / 100, 0, 0] [0, 0, 0] = IS_THRESHOLD"
  proof -
    have "euclidean_distance [2598 / 100, 0, 0] [0, 0, 0] = sqrt ((2598 / 100) ^ 2)"
      by (simp add: euclidean_distance_def)
    also have "\<dots> = \<bar>2598 / 100\<bar>" by (rule real_sqrt_abs)
    finally show ?thesis by (simp add: IS_THRESHOLD_def)
  qed
  have n1: "IS_THRESHOLD < pairwise_norm (1 / 10 ^ 6) [2598 / 100, 0, 0] [0, 0, 0]"
    unfolding pairwise_norm_def
    by (rule real_less_rsqrt) (simp add: IS_THRESHOLD_def power2_eq_square)
  have d2: "IS_THRESHOLD < euclidean_distance [0, 0, 0] [2598 / 100 + 1 / 10 ^ 7, 0, 0]"
    unfolding euclidean_distance_def
    by (rule real_less_rsqrt) (simp add: IS_THRESHOLD_def power2_eq_square)
  have n2: "pairwise_norm (1 / 10 ^ 6) [0, 0, 0] [2598 / 100 + 1 / 10 ^ 7, 0, 0] \<le> IS_THRESHOLD"
    unfolding pairwise_norm_def
    by (rule real_le_lsqrt) (simp_all add: IS_THRESHOLD_def power2_eq_square)
  have g1: "generate_from_one_batch (1 / 10 ^ 6) boundary_propagation fresh_trainer [[[0, 0, 0]]]
     = Inr (pairwise_norm (1 / 10 ^ 6) [2598 / 100, 0, 0] [0, 0, 0], 1, 100)"
    using generate_single [of boundary_propagation "[[0, 0, 0]]" fresh_trainer
        "[[2598 / 100, 0, 0]]" "1 / 10 ^ 6"] n1
    by (simp add: boundary_propagation_def)
  have g2: "generate_from_one_batch (1 / 10 ^ 6) origin_propagation fresh_trainer
        [[[2598 / 100 + 1 / 10 ^ 7, 0, 0]]]
     = Inr (pairwise_norm (1 / 10 ^ 6) [0, 0, 0] [2598 / 100 + 1 / 10 ^ 7, 0, 0], 1, 0)"
    using generate_single [of origin_propagation "[[2598 / 100 + 1 / 10 ^ 7, 0, 0]]"
        fresh_trainer "[[0, 0, 0]]" "1 / 10 ^ 6"] n2
    by (simp add: origin_propagation_def not_less [symmetric])
  from d1 g1 d2 g2 show ?thesis by blast
qed

end
